theory Spec2Isabelle
  imports Complex_Main "HOL-Library.Sublist" "HOL-Library.AList"
begin

chapter \<open>geofileops: column projector, batch planner, operations, Lang simplifier\<close>

text \<open>
  A shallow embedding of \<^verbatim>\<open>geofileops/util/_geoops_sql.py\<close> and of the Lang
  simplifier of \<^verbatim>\<open>geofileops/util/vector_util/geometry.py\<close>. Python strings are
  \<^typ>\<open>string\<close>, Python's unbounded integers are \<^typ>\<open>int\<close>, every \<^verbatim>\<open>raise\<close> is
  a value \<open>Inl e\<close> of the sum type \<open>error + 'a\<close>.
\<close>

section \<open>Errors\<close>

datatype error =
    ColumnsNotAvailable "string list" "string list"
      \<comment> \<open>\<^verbatim>\<open>Exception(f"Error, columns_specified contains following columns not in
          columns_available: {missing_columns}. Existing columns: {columns_available}")\<close>:
          the two lists the message prints\<close>
  | IndexError
      \<comment> \<open>Python's \<^verbatim>\<open>IndexError\<close>: a sequence index out of range\<close>
  | RecursionError
      \<comment> \<open>Python's \<^verbatim>\<open>RecursionError\<close>: maximum recursion depth exceeded\<close>
  | ZeroDivisionError
      \<comment> \<open>Python's \<^verbatim>\<open>ZeroDivisionError\<close>: \<^verbatim>\<open>int / int\<close> with a zero divisor\<close>
  | SqlError string
      \<comment> \<open>the relational engine refuses a statement\<close>
  | DriverError string
      \<comment> \<open>the file driver cannot open a container or find a layer\<close>
  | KeyError string
      \<comment> \<open>\<^verbatim>\<open>str.format\<close> on a template with a placeholder that has no argument\<close>
  | ValueError string
      \<comment> \<open>\<^verbatim>\<open>ProcessPoolExecutor(max_workers=n)\<close> with \<open>n\<close> not positive\<close>
  | AssertionError
  | InputPathMissing string "string list"
      \<comment> \<open>\<^verbatim>\<open>Exception(f"Error {operation_name}: input_path doesn't exist: {input_path}")\<close>
          and the same for \<^verbatim>\<open>input1_path\<close> and \<^verbatim>\<open>input2_path\<close>\<close>
  | UseOgrNeedsOnePath string
      \<comment> \<open>\<^verbatim>\<open>Exception(f"Error {operation_name}: if use_ogr is True, input1_path must
          equal input2_path!")\<close>\<close>
  | NoLayersFound "string list"
      \<comment> \<open>\<^verbatim>\<open>Exception(f"Error: No layers found in {path}")\<close>\<close>
  | MoreThanOneLayer "string list" "string list"
      \<comment> \<open>\<^verbatim>\<open>Exception(f"Error: More than 1 layer found in {path}: {layers}")\<close>\<close>
  | ErrorExecuting string "string list" string
      \<comment> \<open>\<^verbatim>\<open>Exception(f"Error executing {batches[batch_id]}")\<close> (with \<^verbatim>\<open>", so stop"\<close> in
          the operation on two layers): the message prints the dict of the batch, that
          is its output layer, its \<^verbatim>\<open>tmp_partial_output_path\<close> (which ends in the batch
          id) and its statement\<close>

section \<open>Strings\<close>

text \<open>
  A Python \<^verbatim>\<open>str\<close> is a sequence of Unicode code points; it is modelled by the
  \<^typ>\<open>string\<close> of its UTF-8 encoding, on which concatenation and equality are those of
  the \<^verbatim>\<open>str\<close>. \<^verbatim>\<open>str.upper()\<close> is a built-in of the interpreter: it follows the
  Unicode case mapping and can change the length of a name. The column projector
  takes it as the parameter \<open>to_upper\<close>, and the machine an operation runs on has
  it as the field \<open>str_upper\<close>; nothing is assumed of it. On a name of ASCII
  characters it is \<open>ascii_upper\<close>, which the example inputs use.
\<close>

definition char_upper :: "char \<Rightarrow> char" where
  "char_upper c =
     (case map_of (zip ''abcdefghijklmnopqrstuvwxyz'' ''ABCDEFGHIJKLMNOPQRSTUVWXYZ'') c of
        Some u \<Rightarrow> u
      | None \<Rightarrow> c)"

definition ascii_upper :: "string \<Rightarrow> string" where
  "ascii_upper s = map char_upper s"

text \<open>\<^verbatim>\<open>sep.join(xs)\<close>\<close>

fun join :: "string \<Rightarrow> string list \<Rightarrow> string" where
  "join sep [] = []"
| "join sep [x] = x"
| "join sep (x # y # ys) = x @ sep @ join sep (y # ys)"

text \<open>The double quote character of the f-strings \<^verbatim>\<open>f'"{column}"'\<close>.\<close>

definition dq :: string where
  "dq = [CHR 0x22]"

section \<open>Column projector: \<^verbatim>\<open>format_column_strings\<close>\<close>

record FormattedColumnStrings =
  columns :: string
  columns_prefix :: string
  columns_prefix_alias :: string
  columns_prefix_alias_null :: string
  columns_from_subselect :: string

text \<open>
  \<^verbatim>\<open>format_column_strings(columns_specified, columns_available, table_alias,
  columnname_prefix)\<close>, lines 1734 to 1781, with \<^verbatim>\<open>str.upper\<close> as \<open>to_upper\<close>. \<open>columns_specified\<close> is
  \<^verbatim>\<open>Optional[List[str]]\<close>; \<open>table_alias\<close> is tested against \<^verbatim>\<open>None\<close> and \<^verbatim>\<open>''\<close>
  by the source, so it is an option here.
\<close>

definition format_column_strings ::
  "(string \<Rightarrow> string) \<Rightarrow> string list option \<Rightarrow> string list \<Rightarrow> string option \<Rightarrow> string
     \<Rightarrow> error + FormattedColumnStrings" where
  "format_column_strings to_upper columns_specified columns_available table_alias
       columnname_prefix =
    (case
       (case columns_specified of
          Some specified \<Rightarrow>
            (let columns_available_upper = map to_upper columns_available;
                 missing_columns =
                   filter (\<lambda>col. to_upper col \<notin> set columns_available_upper) specified
             in if length missing_columns > 0
                then Inl (ColumnsNotAvailable missing_columns columns_available)
                else (let columns_specified_upper = map to_upper specified
                      in Inr (filter (\<lambda>col. to_upper col \<in> set columns_specified_upper)
                                columns_available)))
        | None \<Rightarrow> Inr columns_available)
     of
       Inl e \<Rightarrow> Inl e
     | Inr cols \<Rightarrow>
         (if length cols > 0
          then
            (let table_alias_d =
                   (if table_alias \<noteq> None \<and> table_alias \<noteq> Some ''''
                    then the table_alias @ ''.'' else '''');
                 columns_quoted = map (\<lambda>column. dq @ column @ dq) cols;
                 columns_prefix_alias_null =
                   map (\<lambda>column. ''NULL '' @ dq @ columnname_prefix @ column @ dq) cols;
                 columns_prefix = map (\<lambda>column. table_alias_d @ dq @ column @ dq) cols;
                 columns_table_aliased_column_aliased =
                   map (\<lambda>column. table_alias_d @ dq @ column @ dq @ '' '' @ dq
                                    @ columnname_prefix @ column @ dq) cols;
                 columns_from_subselect =
                   map (\<lambda>column. ''sub.'' @ dq @ columnname_prefix @ column @ dq) cols
             in Inr \<lparr> columns = '','' @ join '', '' columns_quoted,
                      columns_prefix = '','' @ join '', '' columns_prefix,
                      columns_prefix_alias =
                        '','' @ join '', '' columns_table_aliased_column_aliased,
                      columns_prefix_alias_null =
                        '','' @ join '', '' columns_prefix_alias_null,
                      columns_from_subselect = '','' @ join '', '' columns_from_subselect \<rparr>)
          else Inr \<lparr> columns = '''', columns_prefix = '''', columns_prefix_alias = '''',
                     columns_prefix_alias_null = '''', columns_from_subselect = '''' \<rparr>))"

section \<open>Line simplifier: \<^verbatim>\<open>simplify_coords_lang_idx\<close> and \<^verbatim>\<open>simplify_coords_lang\<close>\<close>

text \<open>
  Coordinates are read as \<^verbatim>\<open>line_arr[i, 0]\<close> and \<^verbatim>\<open>line_arr[i, 1]\<close>: a row of the
  array is a pair. Floating point numbers are modelled by the reals they stand for,
  with the two special values a division by zero gives in numpy (\<^verbatim>\<open>nan\<close> for
  \<^verbatim>\<open>0/0\<close>, \<^verbatim>\<open>inf\<close> for \<^verbatim>\<open>x/0\<close> with \<^verbatim>\<open>x > 0\<close>) made explicit; rounding is not
  modelled.
\<close>

type_synonym coord = "real \<times> real"

datatype pyfloat = Fin real | PosInf | NaN

text \<open>The inner function of \<^verbatim>\<open>simplify_coords_lang_idx\<close>, line 305.\<close>

definition point_line_distance ::
  "real \<Rightarrow> real \<Rightarrow> real \<Rightarrow> real \<Rightarrow> real \<Rightarrow> real \<Rightarrow> pyfloat" where
  "point_line_distance x0 y0 x1 y1 x2 y2 =
     (let num = \<bar>(x2 - x1) * (y1 - y0) - (x1 - x0) * (y2 - y1)\<bar>;
          den = sqrt ((x2 - x1) * (x2 - x1) + (y2 - y1) * (y2 - y1))
      in if den = 0 then (if num = 0 then NaN else PosInf) else Fin (num / den))"

text \<open>\<^verbatim>\<open>math.isnan(distance) or distance > tolerance\<close>\<close>

fun out_of_tolerance :: "pyfloat \<Rightarrow> real \<Rightarrow> bool" where
  "out_of_tolerance NaN tolerance = True"
| "out_of_tolerance PosInf tolerance = True"
| "out_of_tolerance (Fin d) tolerance = (d > tolerance)"

text \<open>
  Python indexing \<^verbatim>\<open>xs[i]\<close> and \<^verbatim>\<open>xs[i] = v\<close> on a sequence of length \<open>n\<close>: a
  negative index counts from the end, an index out of range raises \<^verbatim>\<open>IndexError\<close>.
\<close>

definition py_index :: "nat \<Rightarrow> int \<Rightarrow> error + nat" where
  "py_index n i =
     (let j = (if i < 0 then int n + i else i)
      in if 0 \<le> j \<and> j < int n then Inr (nat j) else Inl IndexError)"

definition py_getitem :: "'a list \<Rightarrow> int \<Rightarrow> error + 'a" where
  "py_getitem xs i = (case py_index (length xs) i of Inl e \<Rightarrow> Inl e | Inr j \<Rightarrow> Inr (xs ! j))"

definition py_setitem :: "'a list \<Rightarrow> int \<Rightarrow> 'a \<Rightarrow> error + 'a list" where
  "py_setitem xs i v =
     (case py_index (length xs) i of Inl e \<Rightarrow> Inl e | Inr j \<Rightarrow> Inr (xs[j := v]))"

text \<open>
  The \<^verbatim>\<open>for i in range(window_start+1, window_end)\<close> loop with its \<^verbatim>\<open>break\<close>, lines
  332 to 341, over the list of the indices still to visit: the value of
  \<^verbatim>\<open>all_points_in_tolerance\<close> when the loop ends.
\<close>

fun all_points_in_tolerance ::
  "coord list \<Rightarrow> real \<Rightarrow> int \<Rightarrow> int \<Rightarrow> int list \<Rightarrow> error + bool" where
  "all_points_in_tolerance line_arr tolerance window_start window_end [] = Inr True"
| "all_points_in_tolerance line_arr tolerance window_start window_end (i # rest) =
     (case py_getitem line_arr i of
        Inl e \<Rightarrow> Inl e
      | Inr p0 \<Rightarrow>
     (case py_getitem line_arr window_start of
        Inl e \<Rightarrow> Inl e
      | Inr p1 \<Rightarrow>
     (case py_getitem line_arr window_end of
        Inl e \<Rightarrow> Inl e
      | Inr p2 \<Rightarrow>
         (let distance = point_line_distance (fst p0) (snd p0) (fst p1) (snd p1)
                           (fst p2) (snd p2)
          in if out_of_tolerance distance tolerance then Inr False
             else all_points_in_tolerance line_arr tolerance window_start window_end rest))))"

text \<open>
  The \<^verbatim>\<open>while ready is False\<close> loop, lines 329 to 358. The loop need not end (with
  \<^verbatim>\<open>lookahead = 0\<close> and two points the window never moves), so it is a partial
  function: \<open>None\<close> is the loop that runs forever, \<open>Some (Inl e)\<close> a raise,
  \<open>Some (Inr mask)\<close> the mask at the end.
\<close>

partial_function (option) lang_loop ::
  "coord list \<Rightarrow> real \<Rightarrow> int \<Rightarrow> int \<Rightarrow> int \<Rightarrow> bool list \<Rightarrow> (error + bool list) option" where
  "lang_loop line_arr tolerance window_size window_start window_end mask_arr =
     (case all_points_in_tolerance line_arr tolerance window_start window_end
             [window_start + 1 .. window_end - 1] of
        Inl e \<Rightarrow> Some (Inl e)
      | Inr in_tolerance \<Rightarrow>
          if \<not> in_tolerance
          then lang_loop line_arr tolerance window_size window_start (window_end - 1) mask_arr
          else
            (case py_setitem mask_arr window_end True of
               Inl e \<Rightarrow> Some (Inl e)
             | Inr mask_arr' \<Rightarrow>
                 (let nb_points = int (length line_arr);
                      window_start' = window_end;
                      ready = (window_start' = nb_points - 1);
                      window_end' = window_start' + window_size;
                      window_end'' =
                        (if window_end' \<ge> nb_points then nb_points - 1 else window_end')
                  in if ready then Some (Inr mask_arr')
                     else lang_loop line_arr tolerance window_size window_start'
                            window_end'' mask_arr')))"

text \<open>
  \<^verbatim>\<open>simplify_coords_lang_idx(coords, tolerance, lookahead)\<close>, lines 280 to 367. The
  result is the list of the indices set in the mask (\<^verbatim>\<open>mask.nonzero()[0]\<close>);
  whether it comes back as an array or as a list does not change its elements. The
  source's \<^verbatim>\<open>mask\<close> is \<open>mask_arr\<close> here.
\<close>

definition simplify_coords_lang_idx ::
  "coord list \<Rightarrow> real \<Rightarrow> int \<Rightarrow> (error + nat list) option" where
  "simplify_coords_lang_idx coords tolerance lookahead =
     (let line_arr = coords;
          nb_points = int (length line_arr);
          window_size = (if lookahead = -1 then nb_points - 1
                         else min lookahead (nb_points - 1));
          mask_arr = replicate (length line_arr) False
      in case py_setitem mask_arr 0 True of
           Inl e \<Rightarrow> Some (Inl e)
         | Inr mask_arr \<Rightarrow>
             (case lang_loop line_arr tolerance window_size 0 window_size mask_arr of
                None \<Rightarrow> None
              | Some (Inl e) \<Rightarrow> Some (Inl e)
              | Some (Inr mask_arr') \<Rightarrow>
                  Some (Inr (filter (\<lambda>i. mask_arr' ! i) [0 ..< length mask_arr']))))"

text \<open>
  \<^verbatim>\<open>simplify_coords_lang(coords, tolerance, lookahead)\<close>, lines 243 to 278. Its
  argument is an array or a list. Line 268 calls \<^verbatim>\<open>simplify_coords_lang\<close> itself, with
  the array: the recursion is bounded only by the interpreter's recursion limit, which
  is the first argument here; when it is used up Python raises \<^verbatim>\<open>RecursionError\<close>.
  The numpy indexing \<^verbatim>\<open>coords_arr[coords_to_keep_idx]\<close> of line 272 is the parameter
  \<open>getitem\<close>.
\<close>

datatype coords = Ndarray "coord list" | PyList "coord list"

fun simplify_coords_lang ::
  "(coord list \<Rightarrow> coords \<Rightarrow> error + coord list) \<Rightarrow> nat \<Rightarrow> coords \<Rightarrow> real \<Rightarrow> int
     \<Rightarrow> error + coords" where
  "simplify_coords_lang getitem 0 coords tolerance lookahead = Inl RecursionError"
| "simplify_coords_lang getitem (Suc depth) coords tolerance lookahead =
     (let coords_arr = (case coords of Ndarray a \<Rightarrow> a | PyList l \<Rightarrow> l)
      in case simplify_coords_lang getitem depth (Ndarray coords_arr) tolerance lookahead of
           Inl e \<Rightarrow> Inl e
         | Inr coords_to_keep_idx \<Rightarrow>
             (case getitem coords_arr coords_to_keep_idx of
                Inl e \<Rightarrow> Inl e
              | Inr coords_simplified_arr \<Rightarrow>
                  (case coords of
                     Ndarray _ \<Rightarrow> Inr (Ndarray coords_simplified_arr)
                   | PyList _ \<Rightarrow> Inr (PyList coords_simplified_arr))))"

section \<open>Numbers\<close>

text \<open>
  The planner divides with \<^verbatim>\<open>/\<close> (true division) and comes back to integers with
  \<^verbatim>\<open>int(...)\<close>, which truncates towards zero, and \<^verbatim>\<open>round(...)\<close>, which rounds to the
  nearest integer and a tie to the even one. The quotients are modelled by the reals
  they stand for; floating point rounding is not modelled.
\<close>

definition py_int :: "real \<Rightarrow> int" where
  "py_int x = (if x \<ge> 0 then \<lfloor>x\<rfloor> else \<lceil>x\<rceil>)"

definition py_round :: "real \<Rightarrow> int" where
  "py_round x =
     (let f = \<lfloor>x\<rfloor>; d = x - of_int f
      in if d < 1 / 2 then f
         else if d > 1 / 2 then f + 1
         else if even f then f else f + 1)"

text \<open>\<^verbatim>\<open>str(n)\<close> for an integer, as the f-strings of the batch filters print it.\<close>

function show_nat :: "nat \<Rightarrow> string" where
  "show_nat n =
     (if n < 10 then [''0123456789'' ! n]
      else show_nat (n div 10) @ [''0123456789'' ! (n mod 10)])"
  by pat_completeness auto
termination
  by (relation "measure id") auto

declare show_nat.simps [simp del]

definition show_int :: "int \<Rightarrow> string" where
  "show_int i = (if i < 0 then ''-'' @ show_nat (nat (- i)) else show_nat (nat i))"

section \<open>Paths\<close>

text \<open>
  A \<^verbatim>\<open>pathlib.Path\<close> is the list of its components. \<^verbatim>\<open>p / name\<close> appends a
  component, \<^verbatim>\<open>p.parent\<close> drops the last one, \<^verbatim>\<open>p.name\<close> is the last one;
  \<^verbatim>\<open>p.suffix\<close> and \<^verbatim>\<open>p.stem\<close> split the name at its last dot when that dot is
  neither the first nor the last character.
\<close>

type_synonym path = "string list"

definition path_name :: "path \<Rightarrow> string" where
  "path_name p = (if p = [] then '''' else last p)"

definition path_parent :: "path \<Rightarrow> path" where
  "path_parent p = butlast p"

definition path_join :: "path \<Rightarrow> string \<Rightarrow> path" where
  "path_join p n = p @ [n]"

definition rfind_dot :: "string \<Rightarrow> nat option" where
  "rfind_dot s =
     (case filter (\<lambda>i. s ! i = CHR ''.'') (rev [0 ..< length s]) of
        [] \<Rightarrow> None
      | i # _ \<Rightarrow> Some i)"

definition path_suffix :: "path \<Rightarrow> string" where
  "path_suffix p =
     (let nm = path_name p
      in case rfind_dot nm of
           None \<Rightarrow> ''''
         | Some i \<Rightarrow> if 0 < i \<and> i < length nm - 1 then drop i nm else '''')"

definition path_stem :: "path \<Rightarrow> string" where
  "path_stem p =
     (let nm = path_name p
      in case rfind_dot nm of
           None \<Rightarrow> nm
         | Some i \<Rightarrow> if 0 < i \<and> i < length nm - 1 then take i nm else nm)"

definition path_str :: "path \<Rightarrow> string" where
  "path_str p = join ''/'' p"

section \<open>The world outside: files, the driver, the engine\<close>

text \<open>
  What the operations share with the outside is a state: the file system, and the
  trace of what was asked of the logger, of the relational engine and of the worker
  pool. A file is a container with its rows and whether it has a spatial index, or
  has zero bytes.
\<close>

type_synonym row = nat

datatype geofile = ZeroBytes | Container "row list" bool

datatype node = Dir | File geofile

datatype query =
    MinMaxRowid string
      \<comment> \<open>\<^verbatim>\<open>SELECT MIN(rowid) as min_rowid, MAX(rowid) as max_rowid FROM "{name}"\<close>\<close>
  | NtileBatches int string
      \<comment> \<open>the \<^verbatim>\<open>NTILE({nb_batches}) OVER (ORDER BY rowid)\<close> statement of line 1686\<close>

text \<open>
  The work handed to a worker process: \<^verbatim>\<open>ogr_util.vector_translate_by_info\<close> (input
  path, output path, output layer, statement, explodecollections, forced geometry
  type), \<^verbatim>\<open>sqlite_util.create_table_as_sql\<close> (input1 path, input1 layer, input2 path,
  output path, statement, output layer, geometry type) and
  \<^verbatim>\<open>ogr_util.vector_translate\<close> (as the first).
\<close>

datatype job =
    VectorTranslateByInfo path path string string bool "string option"
  | CreateTableAsSql path string "path option" path string string "string option"
  | VectorTranslate path path string string bool "string option"

datatype event =
    Log string
  | SqlRead path query
  | Convert path "string option" path "string option"
  | Submit job
  | Progress int int

record world =
  fs :: "path \<rightharpoonup> node"
  trace :: "event list"

text \<open>What a worker does with its job: it raises, or leaves this at the job's output path.\<close>

datatype worker_result = WorkerRaises error | WorkerWrites "geofile option"

record LayerInfo =
  name :: string
  featurecount :: int
  geometrycolumn :: string
  layer_columns :: "string list"
  crs :: string

text \<open>
  The collaborators that are not part of the module, as the module sees them:
  \<^verbatim>\<open>multiprocessing.cpu_count()\<close>, \<^verbatim>\<open>gfo.get_layerinfo\<close>, \<^verbatim>\<open>fiona.listlayers\<close>, the
  rowids of a table as the engine reads them, \<^verbatim>\<open>GeofileType(path)\<close> and its
  \<^verbatim>\<open>is_spatialite_based\<close>, \<^verbatim>\<open>sqlite_util.check_runtimedependencies()\<close>,
  \<^verbatim>\<open>io_util.create_tempdir\<close>, the file \<^verbatim>\<open>gfo.convert\<close> writes, the workers, the time
  at which the future of a batch completes (\<^verbatim>\<open>futures.as_completed\<close> yields the futures
  in that order), and \<^verbatim>\<open>template.format(**kwargs)\<close> with the keyword arguments as a
  list of pairs.
\<close>

record env =
  cpu_count :: int
  get_layerinfo :: "path \<Rightarrow> string \<Rightarrow> error + LayerInfo"
  listlayers :: "path \<Rightarrow> string list"
  table_rowids :: "path \<Rightarrow> string \<Rightarrow> int list"
  geofiletype :: "path \<Rightarrow> string"
  is_spatialite_based :: "string \<Rightarrow> bool"
  check_runtimedependencies :: "error option"
  create_tempdir :: "string \<Rightarrow> path"
  converted :: "path \<Rightarrow> string option \<Rightarrow> geofile"
  run_job :: "job \<Rightarrow> worker_result"
  completion_time :: "int \<Rightarrow> nat"
  str_format :: "string \<Rightarrow> (string \<times> string) list \<Rightarrow> error + string"
  str_upper :: "string \<Rightarrow> string"

definition log_event :: "string \<Rightarrow> world \<Rightarrow> world" where
  "log_event msg w = w\<lparr>trace := trace w @ [Log msg]\<rparr>"

definition read_file_sql :: "path \<Rightarrow> query \<Rightarrow> world \<Rightarrow> world" where
  "read_file_sql p q w = w\<lparr>trace := trace w @ [SqlRead p q]\<rparr>"

text \<open>\<^verbatim>\<open>Path.exists()\<close>\<close>

definition path_exists :: "world \<Rightarrow> path \<Rightarrow> bool" where
  "path_exists w p = (fs w p \<noteq> None)"

text \<open>
  Modelled from the spec: \<^verbatim>\<open>gfo.remove\<close>, \<^verbatim>\<open>gfo.move\<close>, \<^verbatim>\<open>gfo.convert\<close>,
  \<^verbatim>\<open>gfo.append_to\<close> and \<^verbatim>\<open>gfo.create_spatial_index\<close> are functions of the package's file
  layer, which is not among the sources (the module \<^verbatim>\<open>geofile.py\<close> has an older
  \<^verbatim>\<open>remove\<close> and \<^verbatim>\<open>move\<close>, and no \<^verbatim>\<open>get_layerinfo\<close>, \<^verbatim>\<open>convert\<close> or \<^verbatim>\<open>append_to\<close>).
  The spec keeps the file layer outside and says what the engine expects of it:
  artifacts are discarded, the partial result is appended to the uncommitted output,
  the finished container is relocated. \<^verbatim>\<open>gfo.remove\<close> is called by
  \<^verbatim>\<open>_two_layer_vector_operation\<close> on paths that do not exist (line 1349, in a new
  directory), so it removes the file when there is one and does nothing otherwise.
\<close>

definition gfo_remove :: "path \<Rightarrow> world \<Rightarrow> world" where
  "gfo_remove p w = w\<lparr>fs := (fs w)(p := None)\<rparr>"

definition gfo_move :: "path \<Rightarrow> path \<Rightarrow> world \<Rightarrow> world" where
  "gfo_move src dst w = w\<lparr>fs := ((fs w)(dst := fs w src))(src := None)\<rparr>"

definition gfo_convert ::
  "env \<Rightarrow> path \<Rightarrow> string option \<Rightarrow> path \<Rightarrow> string option \<Rightarrow> world \<Rightarrow> world" where
  "gfo_convert ev src src_layer dst dst_layer w =
     w\<lparr>fs := (fs w)(dst \<mapsto> File (converted ev src src_layer)),
       trace := trace w @ [Convert src src_layer dst dst_layer]\<rparr>"

definition rows_of :: "node option \<Rightarrow> row list" where
  "rows_of n = (case n of Some (File (Container rs _)) \<Rightarrow> rs | _ \<Rightarrow> [])"

definition gfo_append_to :: "path \<Rightarrow> path \<Rightarrow> world \<Rightarrow> world" where
  "gfo_append_to src dst w =
     w\<lparr>fs := (fs w)(dst \<mapsto> File (Container (rows_of (fs w dst) @ rows_of (fs w src)) False))\<rparr>"

definition gfo_create_spatial_index :: "path \<Rightarrow> world \<Rightarrow> world" where
  "gfo_create_spatial_index p w =
     w\<lparr>fs := (fs w)(p \<mapsto> File (Container (rows_of (fs w p)) True))\<rparr>"

text \<open>\<^verbatim>\<open>p.mkdir(parents=True, exist_ok=True)\<close>: the directory and its missing ancestors.\<close>

definition mkdir_parents :: "path \<Rightarrow> world \<Rightarrow> world" where
  "mkdir_parents p w =
     w\<lparr>fs := (\<lambda>q. if prefix q p \<and> fs w q = None then Some Dir else fs w q)\<rparr>"

text \<open>\<^verbatim>\<open>shutil.rmtree(d)\<close>: the directory and all that is below it.\<close>

definition rmtree :: "path \<Rightarrow> world \<Rightarrow> world" where
  "rmtree d w = w\<lparr>fs := (\<lambda>q. if prefix d q then None else fs w q)\<rparr>"

section \<open>Batch planner: \<^verbatim>\<open>_prepare_processing_params\<close>\<close>

text \<open>
  The batch filter is a piece of SQL text the source builds with an f-string. The
  datatype has one constructor for each of the three texts, \<open>filter_text\<close> prints the
  text, and \<open>matches\<close> says which rowids the text selects in the \<^verbatim>\<open>WHERE\<close> clause it
  is put in.
\<close>

datatype batch_filter =
    NoFilter
  | Between string int int
  | AtLeast string int

fun filter_text :: "batch_filter \<Rightarrow> string" where
  "filter_text NoFilter = ''''"
| "filter_text (Between layer_alias_d start_rowid end_rowid) =
     ''AND ('' @ layer_alias_d @ ''rowid >= '' @ show_int start_rowid @ '' AND ''
       @ layer_alias_d @ ''rowid <= '' @ show_int end_rowid @ '') ''"
| "filter_text (AtLeast layer_alias_d start_rowid) =
     ''AND '' @ layer_alias_d @ ''rowid >= '' @ show_int start_rowid @ '' ''"

fun matches :: "batch_filter \<Rightarrow> int \<Rightarrow> bool" where
  "matches NoFilter rowid = True"
| "matches (Between layer_alias_d start_rowid end_rowid) rowid =
     (rowid \<ge> start_rowid \<and> rowid \<le> end_rowid)"
| "matches (AtLeast layer_alias_d start_rowid) rowid = (rowid \<ge> start_rowid)"

record batch =
  layer :: string
  path :: path
  batch_filter :: batch_filter

text \<open>
  \<^verbatim>\<open>class ProcessingParams\<close>, lines 1528 to 1545. The dict \<^verbatim>\<open>batches\<close> is the list of
  its items in insertion order. The fields are the attributes of the class with the
  prefix \<open>pp_\<close>, since the planner's parameters have the same names.
\<close>

record ProcessingParams =
  pp_input1_path :: "path option"
  pp_input1_layer :: "string option"
  pp_input1_databasename :: "string option"
  pp_input2_path :: "path option"
  pp_input2_layer :: "string option"
  pp_input2_databasename :: "string option"
  pp_nb_parallel :: int
  pp_batches :: "(int \<times> batch) list option"

text \<open>
  Lines 1567 to 1570: the number of parallel processes. The first argument of
  \<open>determine_nb_batches\<close> (lines 1575 to 1586) is the parameter \<^verbatim>\<open>nb_parallel\<close> as the
  caller passed it, which line 1578 multiplies with \<^verbatim>\<open>batchsize\<close>; the second is
  \<^verbatim>\<open>returnvalue.nb_parallel\<close>; \<open>nb_rows\<close> is \<^verbatim>\<open>input1_layerinfo.featurecount\<close>.
\<close>

definition determine_nb_parallel :: "env \<Rightarrow> int \<Rightarrow> int \<Rightarrow> int" where
  "determine_nb_parallel ev nb_parallel nb_rows =
     (if nb_parallel = - 1
      then (let max_parallel = max (py_int (of_int nb_rows / 100)) 1
            in min (cpu_count ev) max_parallel)
      else nb_parallel)"

definition determine_nb_batches :: "int \<Rightarrow> int \<Rightarrow> int \<Rightarrow> int \<Rightarrow> int" where
  "determine_nb_batches nb_parallel returnvalue_nb_parallel batchsize nb_rows =
     (if returnvalue_nb_parallel > 1
      then
        (let max_rows_parallel = (if batchsize > 0 then batchsize * nb_parallel else 200000)
         in if nb_rows > max_rows_parallel
            then py_int (of_int nb_rows
                          / (of_int max_rows_parallel / of_int returnvalue_nb_parallel))
            else returnvalue_nb_parallel * 2)
      else 1)"

text \<open>Lines 1588 to 1628: the input files, converted to GeoPackage when needed.\<close>

definition prepare_input_files ::
  "env \<Rightarrow> path \<Rightarrow> string \<Rightarrow> path \<Rightarrow> bool \<Rightarrow> path option \<Rightarrow> string option \<Rightarrow> world
     \<Rightarrow> (path \<times> path option) \<times> world" where
  "prepare_input_files ev input1_path input1_layer tempdir convert_to_spatialite_based
       input2_path input2_layer w =
     (if \<not> convert_to_spatialite_based then ((input1_path, input2_path), w)
      else
        (let input1_geofiletype = geofiletype ev input1_path;
             input2_geofiletype = map_option (geofiletype ev) input2_path;
             (r1, w1) =
               (if is_spatialite_based ev input1_geofiletype
                   \<and> (input2_geofiletype = None
                        \<or> Some input1_geofiletype = input2_geofiletype)
                then (input1_path, w)
                else (let dst = path_join tempdir (path_stem input1_path @ ''.gpkg'')
                      in (dst, gfo_convert ev input1_path (Some input1_layer) dst
                                 (Some input1_layer) w)));
             (r2, w2) =
               (case input2_path of
                  None \<Rightarrow> (None, w1)
                | Some p2 \<Rightarrow>
                    if geofiletype ev p2 = input1_geofiletype
                       \<and> is_spatialite_based ev (geofiletype ev p2)
                    then (Some p2, w1)
                    else (let dst = path_join tempdir (path_stem p2 @ ''.gpkg'')
                          in (Some dst, gfo_convert ev p2 input2_layer dst input2_layer w1)))
         in ((r1, r2), w2)))"

text \<open>
  A row of \<^verbatim>\<open>batch_info_df\<close>: \<^verbatim>\<open>(id, nb_rows, start_rowid, end_rowid)\<close>.
  Lines 1664 to 1681, the loop over \<^verbatim>\<open>range(nb_batches)\<close> for rowids that are nearly
  consecutive; the list argument holds the batch ids still to visit.
\<close>

type_synonym batch_info = "int \<times> int \<times> int \<times> int"

fun dense_batch_info_list ::
  "int \<Rightarrow> int \<Rightarrow> int \<Rightarrow> int \<Rightarrow> int \<Rightarrow> int list \<Rightarrow> batch_info list" where
  "dense_batch_info_list nb_batches nb_rows_per_batch offset_per_batch max_rowid offset [] = []"
| "dense_batch_info_list nb_batches nb_rows_per_batch offset_per_batch max_rowid offset
       (batch_id # rest) =
     (let start_rowid = offset;
          end_rowid = (if batch_id < nb_batches - 1 then offset + offset_per_batch - 1
                       else max_rowid)
      in (batch_id, nb_rows_per_batch, start_rowid, end_rowid)
         # dense_batch_info_list nb_batches nb_rows_per_batch offset_per_batch max_rowid
             (offset + offset_per_batch) rest)"

text \<open>
  Lines 1686 to 1697, for rowids with gaps: the statement is run by the engine.
  \<^verbatim>\<open>NTILE(n) OVER (ORDER BY rowid)\<close> numbers \<open>n\<close> groups from 1, as even as possible,
  the larger groups first; \<^verbatim>\<open>GROUP BY batch_id\<close> gives one row for each group that
  has a row; the engine refuses an \<open>n\<close> that is not positive.
\<close>

definition ntile_sizes :: "nat \<Rightarrow> nat \<Rightarrow> nat list" where
  "ntile_sizes n nb_rows =
     map (\<lambda>i. nb_rows div n + (if i < nb_rows mod n then 1 else 0)) [0 ..< n]"

fun split_sizes :: "nat list \<Rightarrow> 'a list \<Rightarrow> 'a list list" where
  "split_sizes [] xs = []"
| "split_sizes (k # ks) xs = take k xs # split_sizes ks (drop k xs)"

definition ntile :: "nat \<Rightarrow> int list \<Rightarrow> (int \<times> int list) list" where
  "ntile n rowids =
     filter (\<lambda>(i, g). g \<noteq> [])
       (zip (map int [1 ..< n + 1]) (split_sizes (ntile_sizes n (length rowids)) (sort rowids)))"

definition sparse_batch_info :: "int \<Rightarrow> int list \<Rightarrow> error + batch_info list" where
  "sparse_batch_info nb_batches rowids =
     (if nb_batches \<le> 0 then Inl (SqlError ''argument of ntile must be a positive integer'')
      else Inr (map (\<lambda>(i, g). (i, int (length g), Min (set g), Max (set g)))
                  (ntile (nat nb_batches) rowids)))"

text \<open>
  Lines 1699 to 1717: the loop that fills the dict \<^verbatim>\<open>batches\<close> and builds the filters.
  \<open>batch_of_info\<close> is the body of the loop, the entry made for one row of
  \<^verbatim>\<open>batch_info_df\<close>; an entry replaces an older one with the same id.
\<close>

definition batch_of_info :: "string \<Rightarrow> path \<Rightarrow> string \<Rightarrow> int \<Rightarrow> batch_info \<Rightarrow> batch" where
  "batch_of_info returnvalue_input1_layer returnvalue_input1_path layer_alias_d nb_batches
       batch_info =
     (case batch_info of (bid, nb_rows, start_rowid, end_rowid) \<Rightarrow>
        \<lparr> layer = returnvalue_input1_layer,
          path = returnvalue_input1_path,
          batch_filter =
            (if bid < nb_batches then Between layer_alias_d start_rowid end_rowid
             else AtLeast layer_alias_d start_rowid) \<rparr>)"

definition build_batches ::
  "string \<Rightarrow> path \<Rightarrow> string option \<Rightarrow> int \<Rightarrow> batch_info list \<Rightarrow> (int \<times> batch) list" where
  "build_batches returnvalue_input1_layer returnvalue_input1_path input1_layer_alias
       nb_batches batch_info_df =
     (let layer_alias_d = (case input1_layer_alias of None \<Rightarrow> '''' | Some a \<Rightarrow> a @ ''.'')
      in fold
           (\<lambda>batch_info batches.
              AList.update (fst batch_info)
                (batch_of_info returnvalue_input1_layer returnvalue_input1_path
                   layer_alias_d nb_batches batch_info)
                batches)
           batch_info_df [])"

text \<open>
  \<^verbatim>\<open>pd.to_numeric\<close> gives \<^verbatim>\<open>min_rowid\<close> and \<^verbatim>\<open>max_rowid\<close> as \<^verbatim>\<open>numpy.int64\<close>, the type
  of the engine's rowids, and \<^verbatim>\<open>max_rowid-min_rowid\<close> (lines 1661 and 1667) is a
  subtraction of that type: the difference wraps around modulo \<open>2 ^ 64\<close>.
\<close>

definition int64_sub :: "int \<Rightarrow> int \<Rightarrow> int" where
  "int64_sub a b = (a - b + 2 ^ 63) mod 2 ^ 64 - 2 ^ 63"

text \<open>
  The test of line 1661, \<^verbatim>\<open>((max_rowid-min_rowid) / nb_rows_input_layer) < 1.1\<close>. The
  minimum and maximum of an empty table are \<^verbatim>\<open>NULL\<close>, and a division by a zero row
  count gives \<^verbatim>\<open>inf\<close> or \<^verbatim>\<open>nan\<close> in numpy: the comparison with 1.1 is then false.
\<close>

definition rowids_consecutive :: "int list \<Rightarrow> int \<Rightarrow> bool" where
  "rowids_consecutive rowids nb_rows_input_layer =
     (rowids \<noteq> [] \<and> nb_rows_input_layer \<noteq> 0
      \<and> of_int (int64_sub (Max (set rowids)) (Min (set rowids)))
            / of_int nb_rows_input_layer
          < (11 / 10 :: real))"

text \<open>
  Lines 1641 to 1717. \<^verbatim>\<open>nb_rows_input_layer/nb_batches\<close> divides two Python integers
  and raises when \<^verbatim>\<open>nb_batches\<close> is 0.
\<close>

definition prepare_batches ::
  "env \<Rightarrow> path \<Rightarrow> string \<Rightarrow> string option \<Rightarrow> LayerInfo \<Rightarrow> int \<Rightarrow> world
     \<Rightarrow> (error + (int \<times> batch) list) \<times> world" where
  "prepare_batches ev returnvalue_input1_path returnvalue_input1_layer input1_layer_alias
       layer1_info nb_batches0 w =
     (let nb_rows_input_layer = featurecount layer1_info;
          nb_batches = (if nb_batches0 > py_int (of_int nb_rows_input_layer / 10)
                        then max (py_int (of_int nb_rows_input_layer / 10)) 1
                        else nb_batches0)
      in if nb_batches = 1
         then (Inr [(0, \<lparr> layer = returnvalue_input1_layer, path = returnvalue_input1_path,
                          batch_filter = NoFilter \<rparr>)], w)
         else
           (let rowids = table_rowids ev returnvalue_input1_path (name layer1_info);
                w1 = read_file_sql returnvalue_input1_path (MinMaxRowid (name layer1_info)) w;
                min_rowid = Min (set rowids);
                max_rowid = Max (set rowids)
            in if rowids_consecutive rowids nb_rows_input_layer
               then
                 (if nb_batches = 0 then (Inl ZeroDivisionError, w1)
                  else
                    (let nb_rows_per_batch =
                           py_round (of_int nb_rows_input_layer / of_int nb_batches);
                         offset_per_batch =
                           py_round (of_int (int64_sub max_rowid min_rowid) / of_int nb_batches);
                         batch_info_df =
                           dense_batch_info_list nb_batches nb_rows_per_batch
                             offset_per_batch max_rowid 0 [0 .. nb_batches - 1]
                     in (Inr (build_batches returnvalue_input1_layer returnvalue_input1_path
                                input1_layer_alias nb_batches batch_info_df), w1)))
               else
                 (let w2 = read_file_sql returnvalue_input1_path
                             (NtileBatches nb_batches (name layer1_info)) w1
                  in case sparse_batch_info nb_batches rowids of
                       Inl e \<Rightarrow> (Inl e, w2)
                     | Inr batch_info_df \<Rightarrow>
                         (Inr (build_batches returnvalue_input1_layer
                                 returnvalue_input1_path input1_layer_alias nb_batches
                                 batch_info_df), w2))))"

text \<open>\<^verbatim>\<open>_prepare_processing_params\<close>, lines 1547 to 1724.\<close>

definition prepare_processing_params ::
  "env \<Rightarrow> path \<Rightarrow> string \<Rightarrow> path \<Rightarrow> bool \<Rightarrow> int \<Rightarrow> int \<Rightarrow> string option \<Rightarrow> path option
     \<Rightarrow> string option \<Rightarrow> world \<Rightarrow> (error + ProcessingParams option) \<times> world" where
  "prepare_processing_params ev input1_path input1_layer tempdir convert_to_spatialite_based
       nb_parallel batchsize input1_layer_alias input2_path input2_layer w =
     (case get_layerinfo ev input1_path input1_layer of
        Inl e \<Rightarrow> (Inl e, w)
      | Inr input1_layerinfo \<Rightarrow>
          if featurecount input1_layerinfo = 0
          then (Inr None,
                log_event (''The input layer doesn't contain any rows. File: ''
                           @ path_str input1_path @ '', layer: '' @ input1_layer) w)
          else
            (let returnvalue_nb_parallel =
                   determine_nb_parallel ev nb_parallel (featurecount input1_layerinfo);
                 nb_batches =
                   determine_nb_batches nb_parallel returnvalue_nb_parallel batchsize
                     (featurecount input1_layerinfo);
                 ((returnvalue_input1_path, returnvalue_input2_path), w1) =
                   prepare_input_files ev input1_path input1_layer tempdir
                     convert_to_spatialite_based input2_path input2_layer w;
                 returnvalue_input1_databasename = ''main'';
                 returnvalue_input2_databasename =
                   (if input2_path = None \<or> Some input1_path = input2_path
                    then returnvalue_input1_databasename else ''input2'')
             in case get_layerinfo ev returnvalue_input1_path input1_layer of
                  Inl e \<Rightarrow> (Inl e, w1)
                | Inr layer1_info \<Rightarrow>
                    (case prepare_batches ev returnvalue_input1_path input1_layer
                            input1_layer_alias layer1_info nb_batches w1 of
                       (Inl e, w2) \<Rightarrow> (Inl e, w2)
                     | (Inr bs, w2) \<Rightarrow>
                         (Inr (Some
                            \<lparr> pp_input1_path = Some returnvalue_input1_path,
                              pp_input1_layer = Some input1_layer,
                              pp_input1_databasename = Some returnvalue_input1_databasename,
                              pp_input2_path = returnvalue_input2_path,
                              pp_input2_layer = input2_layer,
                              pp_input2_databasename = Some returnvalue_input2_databasename,
                              pp_nb_parallel =
                                (if int (length bs) < returnvalue_nb_parallel
                                 then int (length bs) else returnvalue_nb_parallel),
                              pp_batches = Some bs \<rparr>), w2))))"

section \<open>Example inputs\<close>

text \<open>
  A machine with four cores and a GeoPackage driver: every layer it is asked about
  has the given rowids, one feature for each of them and the columns \<open>id\<close> and
  \<open>Name\<close>; workers write nothing; futures complete in the order they were submitted;
  formatting a template appends the batch filter to it; names are upper-cased as
  ASCII names are.
\<close>

definition example_env :: "int list \<Rightarrow> env" where
  "example_env rowids =
     \<lparr> cpu_count = 4,
       get_layerinfo =
         (\<lambda>p l. Inr \<lparr> name = l, featurecount = int (length rowids),
                       geometrycolumn = ''geom'', layer_columns = [''id'', ''Name''],
                       crs = ''EPSG:31370'' \<rparr>),
       listlayers = (\<lambda>p. [''parcels'']),
       table_rowids = (\<lambda>p n. rowids),
       geofiletype = (\<lambda>p. ''GPKG''),
       is_spatialite_based = (\<lambda>t. True),
       check_runtimedependencies = None,
       create_tempdir = (\<lambda>b. [''tmp'', b]),
       converted = (\<lambda>p l. Container [] False),
       run_job = (\<lambda>j. WorkerWrites None),
       completion_time = (\<lambda>batch_id. 0),
       str_format =
         (\<lambda>template kwargs.
            Inr (template @ (case map_of kwargs ''batch_filter'' of
                               None \<Rightarrow> '''' | Some f \<Rightarrow> f))),
       str_upper = ascii_upper \<rparr>"

text \<open>A file system that holds the input container \<^verbatim>\<open>in.gpkg\<close> and nothing else.\<close>

definition example_world :: world where
  "example_world = \<lparr> fs = [[''in.gpkg''] \<mapsto> File (Container [] True)], trace = [] \<rparr>"

text \<open>
  Rowids as a new GeoPackage numbers them, \<open>1, 2, ..., n\<close>, and rowids with gaps,
  \<open>3, 6, ..., 3 n\<close>.
\<close>

definition consecutive_rowids :: "int \<Rightarrow> int list" where
  "consecutive_rowids n = [1 .. n]"

definition gapped_rowids :: "int \<Rightarrow> int list" where
  "gapped_rowids n = map (\<lambda>i. 3 * i) [1 .. n]"

section \<open>The operations\<close>

text \<open>
  \<^verbatim>\<open>get_only_layer\<close> and \<^verbatim>\<open>get_default_layer\<close>, lines 112 to 138 of \<^verbatim>\<open>geofile.py\<close>.
\<close>

definition get_only_layer :: "env \<Rightarrow> path \<Rightarrow> error + string" where
  "get_only_layer ev p =
     (let layers = listlayers ev p;
          nb_layers = length layers
      in if nb_layers = 1 then Inr (layers ! 0)
         else if nb_layers = 0 then Inl (NoLayersFound p)
         else Inl (MoreThanOneLayer p layers))"

definition get_default_layer :: "path \<Rightarrow> string" where
  "get_default_layer p = path_stem p"

text \<open>
  \<^verbatim>\<open>io_util.create_tempdir(base)\<close> makes a directory and returns its path;
  \<^verbatim>\<open>general_util.report_progress\<close> writes a progress line.
\<close>

definition io_create_tempdir :: "env \<Rightarrow> string \<Rightarrow> world \<Rightarrow> path \<times> world" where
  "io_create_tempdir ev base w =
     (create_tempdir ev base, w\<lparr>fs := (fs w)(create_tempdir ev base \<mapsto> Dir)\<rparr>)"

definition report_progress :: "int \<Rightarrow> int \<Rightarrow> world \<Rightarrow> world" where
  "report_progress nb_done nb_todo w = w\<lparr>trace := trace w @ [Progress nb_done nb_todo]\<rparr>"

definition st_size_positive :: "world \<Rightarrow> path \<Rightarrow> bool" where
  "st_size_positive w p =
     (case fs w p of None \<Rightarrow> False | Some (File ZeroBytes) \<Rightarrow> False | Some _ \<Rightarrow> True)"

text \<open>
  The worker pool. A submitted job runs in a process of its own and writes only to
  its own output path, which the coordinator reads only after the job's future has
  completed; and leaving the \<^verbatim>\<open>with\<close> block waits for every worker, also when an
  exception leaves it. So the file a worker writes is put in place when the job is
  submitted, and whether the worker raised is read from its future when the future is
  drained.
\<close>

definition job_output_path :: "job \<Rightarrow> path" where
  "job_output_path j =
     (case j of
        VectorTranslateByInfo _ out _ _ _ _ \<Rightarrow> out
      | CreateTableAsSql _ _ _ out _ _ _ \<Rightarrow> out
      | VectorTranslate _ out _ _ _ _ \<Rightarrow> out)"

definition pool_submit :: "env \<Rightarrow> job \<Rightarrow> world \<Rightarrow> world" where
  "pool_submit ev j w =
     (let w1 = w\<lparr>trace := trace w @ [Submit j]\<rparr>
      in case run_job ev j of
           WorkerWrites (Some f) \<Rightarrow> w1\<lparr>fs := (fs w1)(job_output_path j \<mapsto> File f)\<rparr>
         | WorkerWrites None \<Rightarrow> w1
         | WorkerRaises e \<Rightarrow> w1)"

text \<open>
  The entry \<^verbatim>\<open>batches[batch_id]\<close> an operation keeps for a batch it has submitted:
  \<^verbatim>\<open>'layer'\<close>, \<^verbatim>\<open>'tmp_partial_output_path'\<close> and \<^verbatim>\<open>'sql_stmt'\<close> (\<^verbatim>\<open>'sqlite_stmt'\<close> in
  the operation on two layers).
\<close>

record batch_run =
  out_layer :: string
  tmp_partial_output_path :: path
  sql_stmt :: string

subsection \<open>\<^verbatim>\<open>_single_layer_vector_operation\<close>, lines 363 to 521\<close>

text \<open>
  Lines 435 to 477: the loop that formats the statement of every batch and submits
  it. The newlines and the indentation of the wrapping statement are single spaces
  here.
\<close>

fun single_layer_submit ::
  "env \<Rightarrow> path \<Rightarrow> path \<Rightarrow> string \<Rightarrow> string \<Rightarrow> string \<Rightarrow> string \<Rightarrow> bool \<Rightarrow> bool
     \<Rightarrow> string option \<Rightarrow> (int \<times> batch) list \<Rightarrow> world
     \<Rightarrow> (error + (int \<times> batch_run \<times> job) list) \<times> world" where
  "single_layer_submit ev tempdir output_path output_layer sql_template geometry_column
       columns_to_select_str filter_null_geoms explodecollections force_output_geometrytype
       [] w = (Inr [], w)"
| "single_layer_submit ev tempdir output_path output_layer sql_template geometry_column
       columns_to_select_str filter_null_geoms explodecollections force_output_geometrytype
       ((batch_id, b) # rest) w =
     (let tmp_partial =
            path_join tempdir
              (path_stem output_path @ ''_'' @ show_int batch_id @ path_suffix output_path)
      in case str_format ev sql_template
                [(''geometrycolumn'', geometry_column),
                 (''columns_to_select_str'', columns_to_select_str),
                 (''input_layer'', layer b),
                 (''batch_filter'', filter_text (batch_filter b))] of
           Inl e \<Rightarrow> (Inl e, w)
         | Inr stmt0 \<Rightarrow>
             (let stmt = (if filter_null_geoms
                          then ''SELECT sub.* FROM ( '' @ stmt0
                               @ '' ) sub WHERE sub.geom IS NOT NULL''
                          else stmt0);
                  j = VectorTranslateByInfo (path b) tmp_partial output_layer stmt
                        explodecollections force_output_geometrytype;
                  w1 = pool_submit ev j w
              in case single_layer_submit ev tempdir output_path output_layer sql_template
                        geometry_column columns_to_select_str filter_null_geoms
                        explodecollections force_output_geometrytype rest w1 of
                   (Inl e, w2) \<Rightarrow> (Inl e, w2)
                 | (Inr submitted, w2) \<Rightarrow>
                     (Inr ((batch_id,
                            \<lparr> out_layer = output_layer, tmp_partial_output_path = tmp_partial,
                              sql_stmt = stmt \<rparr>, j) # submitted), w2)))"

text \<open>
  Lines 481 to 507: the loop over the futures in the order they complete; the list
  holds the submitted batches in that order.
\<close>

fun single_layer_drain ::
  "env \<Rightarrow> path \<Rightarrow> int \<Rightarrow> (int \<times> batch_run \<times> job) list \<Rightarrow> int \<Rightarrow> world
     \<Rightarrow> (error + unit) \<times> world" where
  "single_layer_drain ev tmp_output_path nb_todo [] nb_done w = (Inr (), w)"
| "single_layer_drain ev tmp_output_path nb_todo ((batch_id, b, j) # rest) nb_done w =
     (case run_job ev j of
        WorkerRaises ex \<Rightarrow>
          (Inl (ErrorExecuting (out_layer b) (tmp_partial_output_path b) (sql_stmt b)),
           log_event ''Error executing'' w)
      | WorkerWrites f \<Rightarrow>
          (let w1 = (if path_exists w (tmp_partial_output_path b)
                     then gfo_remove (tmp_partial_output_path b)
                            (gfo_append_to (tmp_partial_output_path b) tmp_output_path w)
                     else log_event ''Result file was empty'' w)
           in single_layer_drain ev tmp_output_path nb_todo rest (nb_done + 1)
                (report_progress (nb_done + 1) nb_todo w1)))"

text \<open>
  Lines 407 to 516, the body of the \<^verbatim>\<open>try\<close>. The parameter \<^verbatim>\<open>columns\<close> of the source
  is \<open>columns_param\<close> here.
\<close>

definition single_layer_try ::
  "env \<Rightarrow> path \<Rightarrow> path \<Rightarrow> string \<Rightarrow> string \<Rightarrow> string \<Rightarrow> string \<Rightarrow> string list option
     \<Rightarrow> bool \<Rightarrow> string option \<Rightarrow> bool \<Rightarrow> int \<Rightarrow> int \<Rightarrow> LayerInfo \<Rightarrow> path \<Rightarrow> world
     \<Rightarrow> (error + unit) \<times> world" where
  "single_layer_try ev input_path output_path sql_template operation_name input_layer
       output_layer columns_param explodecollections force_output_geometrytype
       filter_null_geoms nb_parallel batchsize input_layerinfo tempdir w =
     (case prepare_processing_params ev input_path input_layer tempdir False nb_parallel
             batchsize (Some ''layer'') None None w of
        (Inl e, w1) \<Rightarrow> (Inl e, w1)
      | (Inr None, w1) \<Rightarrow> (Inr (), w1)
      | (Inr (Some processing_params), w1) \<Rightarrow>
          (case pp_batches processing_params of
             None \<Rightarrow> (Inr (), w1)
           | Some processing_params_batches \<Rightarrow>
               (case format_column_strings (str_upper ev) columns_param
                       (layer_columns input_layerinfo) (Some '''') '''' of
                  Inl e \<Rightarrow> (Inl e, w1)
                | Inr formatted_column_strings \<Rightarrow>
                    (let tmp_output_path = path_join tempdir (path_name output_path)
                     in if pp_nb_parallel processing_params \<le> 0
                        then (Inl (ValueError ''max_workers must be greater than 0''), w1)
                        else
                          (case single_layer_submit ev tempdir output_path output_layer
                                  sql_template (geometrycolumn input_layerinfo)
                                  (columns formatted_column_strings) filter_null_geoms
                                  explodecollections force_output_geometrytype
                                  processing_params_batches w1 of
                             (Inl e, w2) \<Rightarrow> (Inl e, w2)
                           | (Inr submitted, w2) \<Rightarrow>
                               (case single_layer_drain ev tmp_output_path
                                       (int (length submitted))
                                       (sort_key (\<lambda>(batch_id, b, j). completion_time ev batch_id)
                                          submitted)
                                       0 w2 of
                                  (Inl e, w3) \<Rightarrow> (Inl e, w3)
                                | (Inr u, w3) \<Rightarrow>
                                    (Inr (),
                                     if path_exists w3 tmp_output_path
                                     then gfo_move tmp_output_path output_path
                                            (mkdir_parents (path_parent output_path)
                                               (gfo_create_spatial_index tmp_output_path w3))
                                     else log_event (''Result of '' @ operation_name
                                                     @ '' was empty!'') w3)))))))"

text \<open>
  The whole function. The \<^verbatim>\<open>finally\<close> clause of lines 518 to 521 runs after the body
  of the \<^verbatim>\<open>try\<close> however it ends; the result or the exception of the body is then
  the function's.
\<close>

definition single_layer_vector_operation ::
  "env \<Rightarrow> path \<Rightarrow> path \<Rightarrow> string \<Rightarrow> string \<Rightarrow> string option \<Rightarrow> string option
     \<Rightarrow> string list option \<Rightarrow> bool \<Rightarrow> string option \<Rightarrow> bool \<Rightarrow> int \<Rightarrow> int \<Rightarrow> bool
     \<Rightarrow> world \<Rightarrow> (error + unit) \<times> world" where
  "single_layer_vector_operation ev input_path output_path sql_template operation_name
       input_layer output_layer columns_param explodecollections force_output_geometrytype
       filter_null_geoms nb_parallel batchsize force w =
     (if \<not> path_exists w input_path
      then (Inl (InputPathMissing operation_name input_path), w)
      else
        (case (case input_layer of None \<Rightarrow> get_only_layer ev input_path | Some l \<Rightarrow> Inr l) of
           Inl e \<Rightarrow> (Inl e, w)
         | Inr input_layer' \<Rightarrow>
             (let output_layer' = (case output_layer of
                                     None \<Rightarrow> get_default_layer output_path
                                   | Some l \<Rightarrow> l)
              in if path_exists w output_path \<and> \<not> force
                 then (Inr (),
                       log_event (''Stop '' @ operation_name @ '': output exists already ''
                                  @ path_str output_path) w)
                 else
                   (let w1 = (if path_exists w output_path then gfo_remove output_path w
                              else w)
                    in case get_layerinfo ev input_path input_layer' of
                         Inl e \<Rightarrow> (Inl e, w1)
                       | Inr input_layerinfo \<Rightarrow>
                           (let (tempdir, w2) =
                                  io_create_tempdir ev
                                    (''geofileops/''
                                     @ map (\<lambda>c. if c = CHR '' '' then CHR ''_'' else c)
                                         operation_name) w1;
                                (r, w3) =
                                  single_layer_try ev input_path output_path sql_template
                                    operation_name input_layer' output_layer' columns_param
                                    explodecollections force_output_geometrytype
                                    filter_null_geoms nb_parallel batchsize input_layerinfo
                                    tempdir w2
                            in (r, log_event ''Processing ready'' (rmtree tempdir w3)))))))"

subsection \<open>\<^verbatim>\<open>_two_layer_vector_operation\<close>, lines 1264 to 1526\<close>

text \<open>
  Lines 1402 to 1464: the loop that formats the statement of every batch and submits
  it, to \<^verbatim>\<open>sqlite_util.create_table_as_sql\<close>, or to \<^verbatim>\<open>ogr_util.vector_translate\<close> with
  the database names filled in when \<^verbatim>\<open>use_ogr\<close> is set. \<open>cs1\<close> and \<open>cs2\<close> are
  \<^verbatim>\<open>input1_columnstrings\<close> and \<^verbatim>\<open>input2_columnstrings\<close>, \<open>gc1\<close> and \<open>gc2\<close> the geometry
  columns of the two layers.
\<close>

fun two_layer_submit ::
  "env \<Rightarrow> path \<Rightarrow> path \<Rightarrow> string \<Rightarrow> string \<Rightarrow> ProcessingParams
     \<Rightarrow> FormattedColumnStrings \<Rightarrow> FormattedColumnStrings \<Rightarrow> string \<Rightarrow> string \<Rightarrow> bool
     \<Rightarrow> string option \<Rightarrow> bool \<Rightarrow> (int \<times> batch) list \<Rightarrow> world
     \<Rightarrow> (error + (int \<times> batch_run \<times> job) list) \<times> world" where
  "two_layer_submit ev tempdir output_path output_layer sql_template processing_params
       cs1 cs2 gc1 gc2 explodecollections force_output_geometrytype use_ogr [] w = (Inr [], w)"
| "two_layer_submit ev tempdir output_path output_layer sql_template processing_params
       cs1 cs2 gc1 gc2 explodecollections force_output_geometrytype use_ogr
       ((batch_id, b) # rest) w =
     (let tmp_partial =
            path_join tempdir (path_stem output_path @ ''_'' @ show_int batch_id @ ''.gpkg'');
          input2_layer' = (case pp_input2_layer processing_params of None \<Rightarrow> ''None''
                           | Some l \<Rightarrow> l)
      in case str_format ev sql_template
                [(''input1_databasename'', ''{input1_databasename}''),
                 (''input2_databasename'', ''{input2_databasename}''),
                 (''layer1_columns_from_subselect_str'', columns_from_subselect cs1),
                 (''layer1_columns_prefix_alias_str'', columns_prefix_alias cs1),
                 (''layer1_columns_prefix_str'', columns_prefix cs1),
                 (''input1_layer'', layer b),
                 (''input1_tmp_layer'', layer b),
                 (''input1_geometrycolumn'', gc1),
                 (''layer2_columns_from_subselect_str'', columns_from_subselect cs2),
                 (''layer2_columns_prefix_alias_str'', columns_prefix_alias cs2),
                 (''layer2_columns_prefix_str'', columns_prefix cs2),
                 (''layer2_columns_prefix_alias_null_str'', columns_prefix_alias_null cs2),
                 (''input2_layer'', input2_layer'),
                 (''input2_tmp_layer'', input2_layer'),
                 (''input2_geometrycolumn'', gc2),
                 (''batch_filter'', filter_text (batch_filter b))] of
           Inl e \<Rightarrow> (Inl e, w)
         | Inr stmt \<Rightarrow>
             (case (if \<not> use_ogr
                    then Inr (CreateTableAsSql (path b) (layer b)
                                (pp_input2_path processing_params) tmp_partial stmt
                                output_layer force_output_geometrytype)
                    else
                      (case str_format ev stmt
                              [(''input1_databasename'',
                                  the (pp_input1_databasename processing_params)),
                               (''input2_databasename'',
                                  the (pp_input2_databasename processing_params))] of
                         Inl e \<Rightarrow> Inl e
                       | Inr stmt' \<Rightarrow>
                           Inr (VectorTranslate (path b) tmp_partial stmt' output_layer
                                  explodecollections force_output_geometrytype))) of
                Inl e \<Rightarrow> (Inl e, w)
              | Inr j \<Rightarrow>
                  (let w1 = pool_submit ev j w
                   in case two_layer_submit ev tempdir output_path output_layer
                             sql_template processing_params cs1 cs2 gc1 gc2
                             explodecollections force_output_geometrytype use_ogr rest w1 of
                        (Inl e, w2) \<Rightarrow> (Inl e, w2)
                      | (Inr submitted, w2) \<Rightarrow>
                          (Inr ((batch_id,
                                 \<lparr> out_layer = output_layer,
                                   tmp_partial_output_path = tmp_partial,
                                   sql_stmt = stmt \<rparr>, j) # submitted), w2))))"

text \<open>
  Lines 1472 to 1506: the loop over the futures in the order they complete. The
  \<^verbatim>\<open>try\<close> of line 1473 turns whatever a worker raised into
  \<^verbatim>\<open>Exception(f"Error executing {batches[batch_id]}, so stop")\<close>.
\<close>

fun two_layer_drain ::
  "env \<Rightarrow> path \<Rightarrow> bool \<Rightarrow> int \<Rightarrow> (int \<times> batch_run \<times> job) list \<Rightarrow> int \<Rightarrow> world
     \<Rightarrow> (error + unit) \<times> world" where
  "two_layer_drain ev tmp_output_path verbose nb_todo [] nb_done w = (Inr (), w)"
| "two_layer_drain ev tmp_output_path verbose nb_todo ((batch_id, b, j) # rest) nb_done w =
     (case run_job ev j of
        WorkerRaises ex \<Rightarrow>
          (Inl (ErrorExecuting (out_layer b) (tmp_partial_output_path b) (sql_stmt b)), w)
      | WorkerWrites f \<Rightarrow>
          (let w1 = (if path_exists w (tmp_partial_output_path b)
                        \<and> st_size_positive w (tmp_partial_output_path b)
                     then gfo_remove (tmp_partial_output_path b)
                            (gfo_append_to (tmp_partial_output_path b) tmp_output_path w)
                     else if verbose then log_event ''Result file was empty'' w else w)
           in two_layer_drain ev tmp_output_path verbose nb_todo rest (nb_done + 1)
                (report_progress (nb_done + 1) nb_todo w1)))"

text \<open>
  Lines 1352 to 1519, the body of the \<^verbatim>\<open>try\<close>. It ends with an exception, with the
  \<^verbatim>\<open>return\<close> of line 1365, or at its last statement.
\<close>

datatype try_exit = Returned | FellThrough

definition two_layer_try ::
  "env \<Rightarrow> path \<Rightarrow> path \<Rightarrow> path \<Rightarrow> string \<Rightarrow> string \<Rightarrow> string \<Rightarrow> string list option
     \<Rightarrow> string \<Rightarrow> string \<Rightarrow> string list option \<Rightarrow> string \<Rightarrow> string \<Rightarrow> bool
     \<Rightarrow> string option \<Rightarrow> bool \<Rightarrow> bool \<Rightarrow> int \<Rightarrow> int \<Rightarrow> bool \<Rightarrow> path \<Rightarrow> path \<Rightarrow> world
     \<Rightarrow> (error + try_exit) \<times> world" where
  "two_layer_try ev input1_path input2_path output_path sql_template operation_name
       input1_layer input1_columns input1_columns_prefix input2_layer input2_columns
       input2_columns_prefix output_layer explodecollections force_output_geometrytype
       output_with_spatial_index use_ogr nb_parallel batchsize verbose tempdir
       tmp_output_path w =
     (let w0 = log_event (''Prepare input (params) for '' @ operation_name
                          @ '' with tempdir: '' @ path_str tempdir) w
      in case prepare_processing_params ev input1_path input1_layer tempdir True nb_parallel
                batchsize (Some ''layer1'') (Some input2_path) (Some input2_layer) w0 of
           (Inl e, w1) \<Rightarrow> (Inl e, w1)
         | (Inr None, w1) \<Rightarrow> (Inr Returned, w1)
         | (Inr (Some processing_params), w1) \<Rightarrow>
       (case pp_batches processing_params of
          None \<Rightarrow> (Inr Returned, w1)
        | Some processing_params_batches \<Rightarrow>
       (case (pp_input1_path processing_params, pp_input1_layer processing_params,
              pp_input2_path processing_params, pp_input2_layer processing_params) of
          (Some p1, Some l1, Some p2, Some l2) \<Rightarrow>
       (case get_layerinfo ev p1 l1 of
          Inl e \<Rightarrow> (Inl e, w1)
        | Inr input1_tmp_layerinfo \<Rightarrow>
       (case format_column_strings (str_upper ev) input1_columns
               (layer_columns input1_tmp_layerinfo) (Some ''layer1'') input1_columns_prefix of
          Inl e \<Rightarrow> (Inl e, w1)
        | Inr input1_columnstrings \<Rightarrow>
       (case get_layerinfo ev p2 l2 of
          Inl e \<Rightarrow> (Inl e, w1)
        | Inr input2_tmp_layerinfo \<Rightarrow>
       (case format_column_strings (str_upper ev) input2_columns
               (layer_columns input2_tmp_layerinfo) (Some ''layer2'') input2_columns_prefix of
          Inl e \<Rightarrow> (Inl e, w1)
        | Inr input2_columnstrings \<Rightarrow>
       (let w2 = (if crs input1_tmp_layerinfo \<noteq> crs input2_tmp_layerinfo
                  then log_event ''input1 has a different crs than input2'' w1 else w1);
            w3 = log_event (''Start '' @ operation_name @ '' in ''
                            @ show_int (pp_nb_parallel processing_params)
                            @ '' parallel processes'') w2
        in if pp_nb_parallel processing_params \<le> 0
           then (Inl (ValueError ''max_workers must be greater than 0''), w3)
           else
             (case two_layer_submit ev tempdir output_path output_layer sql_template
                     processing_params input1_columnstrings input2_columnstrings
                     (geometrycolumn input1_tmp_layerinfo)
                     (geometrycolumn input2_tmp_layerinfo) explodecollections
                     force_output_geometrytype use_ogr processing_params_batches w3 of
                (Inl e, w4) \<Rightarrow> (Inl e, w4)
              | (Inr submitted, w4) \<Rightarrow>
                  (case two_layer_drain ev tmp_output_path verbose
                          (int (length processing_params_batches))
                          (sort_key (\<lambda>(batch_id, b, j). completion_time ev batch_id)
                             submitted)
                          0 (report_progress 0 (int (length processing_params_batches)) w4) of
                     (Inl e, w5) \<Rightarrow> (Inl e, w5)
                   | (Inr u, w5) \<Rightarrow>
                       (let w6 =
                              (if path_exists w5 tmp_output_path
                               then
                                 (let w5a = (if output_with_spatial_index
                                             then gfo_create_spatial_index tmp_output_path w5
                                             else w5)
                                  in if tmp_output_path \<noteq> output_path
                                     then gfo_move tmp_output_path output_path
                                            (mkdir_parents (path_parent output_path) w5a)
                                     else w5a)
                               else log_event (''Result of '' @ operation_name
                                               @ '' was empty!'') w5)
                        in (Inr FellThrough,
                            log_event (operation_name @ '' ready'') w6)))))))))
        | _ \<Rightarrow> (Inl AssertionError, w1))))"

text \<open>
  The whole function. The \<^verbatim>\<open>except\<close> clause of lines 1520 to 1523 removes the output
  and the uncommitted output and raises the exception again; \<^verbatim>\<open>shutil.rmtree(tempdir)\<close>
  of line 1526 is the statement after the \<^verbatim>\<open>try\<close>, so it runs when the body of the
  \<^verbatim>\<open>try\<close> has ended at its last statement.
\<close>

definition two_layer_vector_operation ::
  "env \<Rightarrow> path \<Rightarrow> path \<Rightarrow> path \<Rightarrow> string \<Rightarrow> string \<Rightarrow> string option \<Rightarrow> string list option
     \<Rightarrow> string \<Rightarrow> string option \<Rightarrow> string list option \<Rightarrow> string \<Rightarrow> string option \<Rightarrow> bool
     \<Rightarrow> string option \<Rightarrow> bool \<Rightarrow> bool \<Rightarrow> int \<Rightarrow> int \<Rightarrow> bool \<Rightarrow> bool \<Rightarrow> world
     \<Rightarrow> (error + unit) \<times> world" where
  "two_layer_vector_operation ev input1_path input2_path output_path sql_template
       operation_name input1_layer input1_columns input1_columns_prefix input2_layer
       input2_columns input2_columns_prefix output_layer explodecollections
       force_output_geometrytype output_with_spatial_index use_ogr nb_parallel batchsize
       verbose force w =
     (if \<not> path_exists w input1_path
      then (Inl (InputPathMissing operation_name input1_path), w)
      else if \<not> path_exists w input2_path
      then (Inl (InputPathMissing operation_name input2_path), w)
      else if use_ogr \<and> input1_path \<noteq> input2_path
      then (Inl (UseOgrNeedsOnePath operation_name), w)
      else if path_exists w output_path \<and> \<not> force
      then (Inr (),
            log_event (''Stop '' @ operation_name @ '': output exists already ''
                       @ path_str output_path) w)
      else
        (let w1 = (if path_exists w output_path then gfo_remove output_path w else w)
         in case check_runtimedependencies ev of
              Some e \<Rightarrow> (Inl e, w1)
            | None \<Rightarrow>
        (case (case input1_layer of None \<Rightarrow> get_only_layer ev input1_path | Some l \<Rightarrow> Inr l) of
           Inl e \<Rightarrow> (Inl e, w1)
         | Inr input1_layer' \<Rightarrow>
        (case (case input2_layer of None \<Rightarrow> get_only_layer ev input2_path | Some l \<Rightarrow> Inr l) of
           Inl e \<Rightarrow> (Inl e, w1)
         | Inr input2_layer' \<Rightarrow>
        (let output_layer' = (case output_layer of
                                None \<Rightarrow> get_default_layer output_path
                              | Some l \<Rightarrow> l);
             (tempdir, w2) = io_create_tempdir ev (''geofileops/'' @ operation_name) w1
         in case get_layerinfo ev input1_path input1_layer' of
              Inl e \<Rightarrow> (Inl e, w2)
            | Inr i1 \<Rightarrow>
        (case get_layerinfo ev input2_path input2_layer' of
           Inl e \<Rightarrow> (Inl e, w2)
         | Inr i2 \<Rightarrow>
        (let tmp_output_path = path_join tempdir (path_name output_path);
             w3 = gfo_remove tmp_output_path
                    (mkdir_parents (path_parent tmp_output_path) w2)
         in case two_layer_try ev input1_path input2_path output_path sql_template
                   operation_name input1_layer' input1_columns input1_columns_prefix
                   input2_layer' input2_columns input2_columns_prefix output_layer'
                   explodecollections force_output_geometrytype output_with_spatial_index
                   use_ogr nb_parallel batchsize verbose tempdir tmp_output_path w3 of
              (Inl e, w4) \<Rightarrow> (Inl e, gfo_remove tmp_output_path (gfo_remove output_path w4))
            | (Inr Returned, w4) \<Rightarrow> (Inr (), w4)
            | (Inr FellThrough, w4) \<Rightarrow> (Inr (), rmtree tempdir w4))))))))"

subsection \<open>What a run asked of the pool and of the engine\<close>

definition submitted_jobs :: "world \<Rightarrow> job list" where
  "submitted_jobs w = concat (map (\<lambda>e. case e of Submit j \<Rightarrow> [j] | _ \<Rightarrow> []) (trace w))"

definition sql_reads :: "world \<Rightarrow> (path \<times> query) list" where
  "sql_reads w = concat (map (\<lambda>e. case e of SqlRead p q \<Rightarrow> [(p, q)] | _ \<Rightarrow> []) (trace w))"

subsection \<open>More example inputs\<close>

text \<open>
  A file system with two input containers, and one that holds an output already. A
  machine on which every layer has the rowids \<open>1, ..., 40\<close>, the worker of the batch
  that writes \<^verbatim>\<open>out_2.gpkg\<close> raises, the other workers write a container with two rows,
  and the futures complete in the order 3, 2, 1, 0.
\<close>

definition two_inputs_world :: world where
  "two_inputs_world =
     \<lparr> fs = [[''in.gpkg''] \<mapsto> File (Container [] True),
              [''erase.gpkg''] \<mapsto> File (Container [] True)],
       trace = [] \<rparr>"


definition failing_env :: "string \<Rightarrow> env" where
  "failing_env operation_name =
     (example_env (consecutive_rowids 40))
       \<lparr> run_job :=
           (\<lambda>j. if job_output_path j
                     = [''tmp'', ''geofileops/'' @ operation_name, ''out_2.gpkg'']
                then WorkerRaises (SqlError ''no such function'')
                else WorkerWrites (Some (Container [1, 2] False))),
         completion_time := (\<lambda>batch_id. nat (3 - batch_id)) \<rparr>"

chapter \<open>Properties\<close>

section \<open>Column projector\<close>

lemma format_column_strings_None:
  "\<exists>r. format_column_strings to_upper None columns_available table_alias columnname_prefix
        = Inr r"
  by (simp add: format_column_strings_def Let_def)

lemma format_column_strings_missing_iff:
  "(filter (\<lambda>col. to_upper col \<notin> to_upper ` set columns_available) specified = [])
     = (\<forall>col \<in> set specified. to_upper col \<in> to_upper ` set columns_available)"
  by (auto simp: filter_empty_conv)

text \<open>
  Claim C8. For a requested column subset \<open>specified\<close> and the available columns,
  with \<^verbatim>\<open>str.upper\<close> whatever function \<open>to_upper\<close> it is: if some requested column
  matches no available column, even case-insensitively (its upper-cased name is the
  upper-cased name of no available column), the projector raises, and the error
  carries exactly the requested columns that have no match (in the order requested)
  beside the available columns; if every requested column has a match, it raises no
  error. With no subset requested it raises no error either.
\<close>

theorem format_column_strings_unknown_columns:
  "((\<exists>col \<in> set specified. to_upper col \<notin> to_upper ` set columns_available) \<longrightarrow>
      format_column_strings to_upper (Some specified) columns_available table_alias
          columnname_prefix
        = Inl (ColumnsNotAvailable
                 (filter (\<lambda>col. to_upper col \<notin> to_upper ` set columns_available) specified)
                 columns_available))
   \<and> (\<not> (\<exists>col \<in> set specified. to_upper col \<notin> to_upper ` set columns_available) \<longrightarrow>
      (\<exists>r. format_column_strings to_upper (Some specified) columns_available table_alias
              columnname_prefix = Inr r))
   \<and> (\<exists>r. format_column_strings to_upper None columns_available table_alias
            columnname_prefix = Inr r)"
proof (intro conjI impI)
  assume "\<exists>col \<in> set specified. to_upper col \<notin> to_upper ` set columns_available"
  then have "filter (\<lambda>col. to_upper col \<notin> to_upper ` set columns_available) specified \<noteq> []"
    by (simp add: format_column_strings_missing_iff)
  then show "format_column_strings to_upper (Some specified) columns_available table_alias
               columnname_prefix
             = Inl (ColumnsNotAvailable
                      (filter (\<lambda>col. to_upper col \<notin> to_upper ` set columns_available)
                         specified)
                      columns_available)"
    by (simp add: format_column_strings_def Let_def)
next
  assume "\<not> (\<exists>col \<in> set specified. to_upper col \<notin> to_upper ` set columns_available)"
  then have "filter (\<lambda>col. to_upper col \<notin> to_upper ` set columns_available) specified = []"
    by (simp add: format_column_strings_missing_iff)
  then show "\<exists>r. format_column_strings to_upper (Some specified) columns_available
                    table_alias columnname_prefix = Inr r"
    by (simp add: format_column_strings_def Let_def)
next
  show "\<exists>r. format_column_strings to_upper None columns_available table_alias
              columnname_prefix = Inr r"
    by (rule format_column_strings_None)
qed

theorem format_column_strings_unknown_columns_witness:
  "(\<exists>col \<in> set [''bogus''].
       ascii_upper col \<notin> ascii_upper ` set [''id'', ''Name'', ''AREA'', ''geom''])
   \<and> format_column_strings ascii_upper (Some [''bogus''])
         [''id'', ''Name'', ''AREA'', ''geom''] (Some ''layer1'') ''''
       = Inl (ColumnsNotAvailable [''bogus''] [''id'', ''Name'', ''AREA'', ''geom''])
   \<and> \<not> (\<exists>col \<in> set [''NAME'', ''area''].
            ascii_upper col \<notin> ascii_upper ` set [''id'', ''Name'', ''AREA'', ''geom''])
   \<and> (\<exists>r. format_column_strings ascii_upper (Some [''NAME'', ''area''])
              [''id'', ''Name'', ''AREA'', ''geom''] (Some ''layer1'') '''' = Inr r)"
  using format_column_strings_unknown_columns
          [of "[''bogus'']" ascii_upper "[''id'', ''Name'', ''AREA'', ''geom'']"
              "Some ''layer1''" "''''"]
        format_column_strings_unknown_columns
          [of "[''NAME'', ''area'']" ascii_upper "[''id'', ''Name'', ''AREA'', ''geom'']"
              "Some ''layer1''" "''''"]
  by (simp add: ascii_upper_def char_upper_def)

text \<open>
  The same with a case mapping that is not the ASCII one: when \<^verbatim>\<open>str.upper\<close> takes the
  two names to the same string, the request is no error, whatever the names are.
\<close>

lemma format_column_strings_same_upper:
  assumes "to_upper requested = to_upper declared"
  shows "\<exists>r. format_column_strings to_upper (Some [requested]) [declared] table_alias
               columnname_prefix = Inr r"
  using assms by (simp add: format_column_strings_def Let_def)

lemma format_column_strings_selected:
  assumes "\<forall>col \<in> set specified. to_upper col \<in> to_upper ` set columns_available"
  shows "format_column_strings to_upper (Some specified) columns_available table_alias
           columnname_prefix
         = format_column_strings to_upper None
             (filter (\<lambda>col. to_upper col \<in> to_upper ` set specified) columns_available)
             table_alias columnname_prefix"
proof -
  from assms
  have "filter (\<lambda>col. to_upper col \<notin> to_upper ` set columns_available) specified = []"
    by (simp add: format_column_strings_missing_iff)
  then show ?thesis
    by (simp add: format_column_strings_def Let_def)
qed

text \<open>
  With no subset requested the five fragments are built from the available columns as
  they are declared: each name is copied between the quotes unchanged.
\<close>

lemma format_column_strings_all_columns:
  "format_column_strings to_upper None cols table_alias columnname_prefix =
     Inr (if cols = []
          then \<lparr> columns = '''', columns_prefix = '''', columns_prefix_alias = '''',
                 columns_prefix_alias_null = '''', columns_from_subselect = '''' \<rparr>
          else
            \<lparr> columns = '','' @ join '', '' (map (\<lambda>c. dq @ c @ dq) cols),
              columns_prefix =
                '','' @ join '', ''
                  (map (\<lambda>c. (case table_alias of None \<Rightarrow> ''''
                               | Some a \<Rightarrow> if a = '''' then '''' else a @ ''.'')
                             @ dq @ c @ dq) cols),
              columns_prefix_alias =
                '','' @ join '', ''
                  (map (\<lambda>c. (case table_alias of None \<Rightarrow> ''''
                               | Some a \<Rightarrow> if a = '''' then '''' else a @ ''.'')
                             @ dq @ c @ dq @ '' '' @ dq @ columnname_prefix @ c @ dq) cols),
              columns_prefix_alias_null =
                '','' @ join '', ''
                  (map (\<lambda>c. ''NULL '' @ dq @ columnname_prefix @ c @ dq) cols),
              columns_from_subselect =
                '','' @ join '', ''
                  (map (\<lambda>c. ''sub.'' @ dq @ columnname_prefix @ c @ dq) cols) \<rparr>)"
  by (cases table_alias) (simp_all add: format_column_strings_def Let_def)

text \<open>
  Claim C9. When every requested column matches an available column
  case-insensitively, let \<open>cols\<close> be the available columns whose upper-cased name is
  that of a requested column, in the order and in the spelling the source layer
  declares them. Then \<open>cols\<close> is a subsequence of the available columns, it has a
  match for every requested column, and the five fragments are these texts: for
  every \<open>c\<close> of \<open>cols\<close>, copied unchanged, \<^verbatim>\<open>"c"\<close> in \<^verbatim>\<open>columns\<close>, \<^verbatim>\<open>alias."c"\<close> in
  \<^verbatim>\<open>columns_prefix\<close>, \<^verbatim>\<open>alias."c" "prefixc"\<close> in \<^verbatim>\<open>columns_prefix_alias\<close>,
  \<^verbatim>\<open>NULL "prefixc"\<close> in \<^verbatim>\<open>columns_prefix_alias_null\<close> and \<^verbatim>\<open>sub."prefixc"\<close> in
  \<^verbatim>\<open>columns_from_subselect\<close>, joined by a comma and a blank after a leading comma
  (five empty strings when \<open>cols\<close> is empty). The requested names are in the
  fragments nowhere, and any request with the same upper-cased names gives the same
  fragments.
\<close>

theorem format_column_strings_declared_casing:
  assumes "\<forall>col \<in> set specified. to_upper col \<in> to_upper ` set columns_available"
  shows "(let cols = filter (\<lambda>c. to_upper c \<in> to_upper ` set specified) columns_available;
              table_alias_d = (case table_alias of None \<Rightarrow> ''''
                               | Some a \<Rightarrow> if a = '''' then '''' else a @ ''.'')
          in subseq cols columns_available
           \<and> (\<forall>s \<in> set specified. \<exists>c \<in> set cols. to_upper c = to_upper s)
           \<and> format_column_strings to_upper (Some specified) columns_available table_alias
                 columnname_prefix
               = Inr (if cols = []
                      then \<lparr> columns = '''', columns_prefix = '''',
                             columns_prefix_alias = '''', columns_prefix_alias_null = '''',
                             columns_from_subselect = '''' \<rparr>
                      else
                        \<lparr> columns = '','' @ join '', '' (map (\<lambda>c. dq @ c @ dq) cols),
                          columns_prefix =
                            '','' @ join '', '' (map (\<lambda>c. table_alias_d @ dq @ c @ dq) cols),
                          columns_prefix_alias =
                            '','' @ join '', ''
                              (map (\<lambda>c. table_alias_d @ dq @ c @ dq @ '' '' @ dq
                                         @ columnname_prefix @ c @ dq) cols),
                          columns_prefix_alias_null =
                            '','' @ join '', ''
                              (map (\<lambda>c. ''NULL '' @ dq @ columnname_prefix @ c @ dq) cols),
                          columns_from_subselect =
                            '','' @ join '', ''
                              (map (\<lambda>c. ''sub.'' @ dq @ columnname_prefix @ c @ dq) cols) \<rparr>)
           \<and> (\<forall>specified'. map to_upper specified' = map to_upper specified \<longrightarrow>
                 format_column_strings to_upper (Some specified') columns_available
                   table_alias columnname_prefix
                 = format_column_strings to_upper (Some specified) columns_available
                     table_alias columnname_prefix))"
proof -
  let ?cols = "filter (\<lambda>col. to_upper col \<in> to_upper ` set specified) columns_available"
  have 1: "subseq ?cols columns_available" by simp
  have 3: "\<forall>s \<in> set specified. \<exists>c \<in> set ?cols. to_upper c = to_upper s"
  proof
    fix s assume s: "s \<in> set specified"
    with assms obtain c where c: "c \<in> set columns_available" "to_upper s = to_upper c"
      by (auto simp: image_iff)
    from s c have "c \<in> set ?cols" by (auto intro: rev_image_eqI)
    with c show "\<exists>c \<in> set ?cols. to_upper c = to_upper s"
      by (intro bexI[of _ c]) simp_all
  qed
  have 4: "format_column_strings to_upper (Some specified) columns_available table_alias
             columnname_prefix
           = format_column_strings to_upper None ?cols table_alias columnname_prefix"
    using assms by (rule format_column_strings_selected)
  have 5: "format_column_strings to_upper (Some specified') columns_available table_alias
             columnname_prefix
           = format_column_strings to_upper (Some specified) columns_available table_alias
               columnname_prefix"
    if h: "map to_upper specified' = map to_upper specified" for specified'
  proof -
    from h have s: "to_upper ` set specified' = to_upper ` set specified"
      by (metis set_map)
    from assms have "to_upper ` set specified \<subseteq> to_upper ` set columns_available"
      by auto
    with s have "to_upper ` set specified' \<subseteq> to_upper ` set columns_available"
      by simp
    then have "\<forall>col \<in> set specified'. to_upper col \<in> to_upper ` set columns_available"
      by blast
    then show ?thesis
      using format_column_strings_selected[of specified' to_upper columns_available] s 4
      by simp
  qed
  show ?thesis
    unfolding Let_def
    using 1 3 5 by (simp only: 4 format_column_strings_all_columns) blast
qed

theorem format_column_strings_declared_casing_witness:
  "list_all (\<lambda>col. ascii_upper col
                     \<in> ascii_upper ` set [''id'', ''Name'', ''AREA'', ''geom''])
     [''NAME'', ''area'']
   \<and> filter (\<lambda>c. ascii_upper c \<in> ascii_upper ` set [''NAME'', ''area''])
        [''id'', ''Name'', ''AREA'', ''geom''] = [''Name'', ''AREA'']
   \<and> format_column_strings ascii_upper (Some [''NAME'', ''area''])
        [''id'', ''Name'', ''AREA'', ''geom''] (Some ''layer1'') ''l1_''
       = Inr \<lparr> columns = '','' @ dq @ ''Name'' @ dq @ '', '' @ dq @ ''AREA'' @ dq,
               columns_prefix =
                 '',layer1.'' @ dq @ ''Name'' @ dq @ '', layer1.'' @ dq @ ''AREA'' @ dq,
               columns_prefix_alias =
                 '',layer1.'' @ dq @ ''Name'' @ dq @ '' '' @ dq @ ''l1_Name'' @ dq
                 @ '', layer1.'' @ dq @ ''AREA'' @ dq @ '' '' @ dq @ ''l1_AREA'' @ dq,
               columns_prefix_alias_null =
                 '',NULL '' @ dq @ ''l1_Name'' @ dq @ '', NULL '' @ dq @ ''l1_AREA'' @ dq,
               columns_from_subselect =
                 '',sub.'' @ dq @ ''l1_Name'' @ dq @ '', sub.'' @ dq @ ''l1_AREA'' @ dq \<rparr>"
proof -
  have h: "\<forall>col \<in> set [''NAME'', ''area''].
             ascii_upper col \<in> ascii_upper ` set [''id'', ''Name'', ''AREA'', ''geom'']"
    by (simp add: ascii_upper_def char_upper_def)
  have f: "filter (\<lambda>c. ascii_upper c \<in> ascii_upper ` set [''NAME'', ''area''])
             [''id'', ''Name'', ''AREA'', ''geom''] = [''Name'', ''AREA'']"
    by (simp add: ascii_upper_def char_upper_def)
  from format_column_strings_declared_casing[OF h, of "Some ''layer1''" "''l1_''"] h f
  show ?thesis by (simp add: list_all_iff Let_def dq_def)
qed

section \<open>Line simplifier\<close>

text \<open>
  Claim C10. For the three-point line \<open>[(0,0), (10,10), (20,20)]\<close> with tolerance 1 and
  lookahead -1, \<^verbatim>\<open>simplify_coords_lang_idx\<close> returns the indices 0 and 2: the loop ends,
  raises nothing, and the collinear midpoint is dropped. (Every number of this run is
  an integer but the square root of 800, which only divides 0.)
\<close>

theorem simplify_coords_lang_idx_line3:
  "simplify_coords_lang_idx [(0, 0), (10, 10), (20, 20)] 1 (- 1) = Some (Inr [0, 2])"
  by (simp add: simplify_coords_lang_idx_def py_setitem_def py_index_def py_getitem_def
      lang_loop.simps point_line_distance_def upto.simps upt_rec)

text \<open>
  Claim C7 says that \<^verbatim>\<open>simplify_coords_lang\<close> returns the coordinates at the indices
  \<^verbatim>\<open>simplify_coords_lang_idx\<close> keeps. The function calls itself instead of
  \<^verbatim>\<open>simplify_coords_lang_idx\<close> (line 268), on every input, before it does anything
  else: whatever the recursion limit, the coordinates and the numpy indexing are, the
  call ends in \<^verbatim>\<open>RecursionError\<close> and never returns coordinates.
\<close>

theorem simplify_coords_lang_never_returns:
  "simplify_coords_lang getitem depth coords tolerance lookahead = Inl RecursionError"
  by (induction depth arbitrary: coords) (simp_all add: Let_def)

section \<open>Batch planner\<close>

lemma prepare_batches_one:
  "prepare_batches ev p l a li 1 w
     = (Inr [(0, \<lparr> layer = l, path = p, batch_filter = NoFilter \<rparr>)], w)"
  by (simp add: prepare_batches_def Let_def max_def)

lemma determine_nb_batches_one:
  "rnp \<le> 1 \<Longrightarrow> determine_nb_batches np rnp bs n = 1"
  by (simp add: determine_nb_batches_def)

lemma determine_nb_parallel_given:
  "nb_parallel \<noteq> - 1 \<Longrightarrow> determine_nb_parallel ev nb_parallel n = nb_parallel"
  by (simp add: determine_nb_parallel_def)

text \<open>
  Claim C6. For a layer that is not empty (the driver reports a feature count other
  than 0), when the resolved parallelism \<^verbatim>\<open>returnvalue.nb_parallel\<close> is 1 (or less),
  and the driver can read the layer of the prepared input, the planner returns
  exactly one batch, with id 0 and the empty string as batch filter, whatever the
  feature count, the batch size and the other arguments are.
\<close>

theorem planner_single_batch:
  assumes li: "get_layerinfo ev input1_path input1_layer = Inr input1_layerinfo"
    and nonempty: "featurecount input1_layerinfo \<noteq> 0"
    and one: "determine_nb_parallel ev nb_parallel (featurecount input1_layerinfo) \<le> 1"
    and li2: "get_layerinfo ev
                (fst (fst (prepare_input_files ev input1_path input1_layer tempdir
                             convert_to_spatialite_based input2_path input2_layer w)))
                input1_layer = Inr layer1_info"
  shows "\<exists>pp w' b.
           prepare_processing_params ev input1_path input1_layer tempdir
             convert_to_spatialite_based nb_parallel batchsize input1_layer_alias
             input2_path input2_layer w = (Inr (Some pp), w')
         \<and> pp_batches pp = Some [(0, b)]
         \<and> batch_filter b = NoFilter
         \<and> filter_text (batch_filter b) = ''''"
proof -
  obtain r1 r2 w1 where pif:
    "prepare_input_files ev input1_path input1_layer tempdir convert_to_spatialite_based
       input2_path input2_layer w = ((r1, r2), w1)"
    by (metis surj_pair)
  from li2 pif have li2': "get_layerinfo ev r1 input1_layer = Inr layer1_info" by simp
  show ?thesis
    using li nonempty one li2' pif
    by (simp add: prepare_processing_params_def Let_def determine_nb_batches_one
        prepare_batches_one)
qed

theorem planner_single_batch_witness:
  "get_layerinfo (example_env [1, 2, 3]) [''in.gpkg''] ''parcels''
     = Inr \<lparr> name = ''parcels'', featurecount = 3, geometrycolumn = ''geom'',
             layer_columns = [''id'', ''Name''], crs = ''EPSG:31370'' \<rparr>
   \<and> determine_nb_parallel (example_env [1, 2, 3]) 1 3 \<le> 1
   \<and> (\<exists>pp w' b.
         prepare_processing_params (example_env [1, 2, 3]) [''in.gpkg''] ''parcels''
           [''tmp''] False 1 (- 1) (Some ''layer'') None None example_world
           = (Inr (Some pp), w')
         \<and> pp_batches pp = Some [(0, b)]
         \<and> batch_filter b = NoFilter
         \<and> filter_text (batch_filter b) = '''')"
proof -
  let ?li = "\<lparr> name = ''parcels'', featurecount = 3, geometrycolumn = ''geom'',
               layer_columns = [''id'', ''Name''], crs = ''EPSG:31370'' \<rparr>"
  have li: "get_layerinfo (example_env [1, 2, 3]) [''in.gpkg''] ''parcels'' = Inr ?li"
    by (simp add: example_env_def)
  have ne: "featurecount ?li \<noteq> 0" by simp
  have one: "determine_nb_parallel (example_env [1, 2, 3]) 1 (featurecount ?li) \<le> 1"
    by (simp add: determine_nb_parallel_def)
  have li2: "get_layerinfo (example_env [1, 2, 3])
               (fst (fst (prepare_input_files (example_env [1, 2, 3]) [''in.gpkg'']
                            ''parcels'' [''tmp''] False None None example_world)))
               ''parcels'' = Inr ?li"
    by (simp add: example_env_def)
  from planner_single_batch[OF li ne one li2, of "- 1" "Some ''layer''"] li one
  show ?thesis by simp
qed

subsection \<open>The dict of batches\<close>

lemma update_fresh: "k \<notin> fst ` set al \<Longrightarrow> AList.update k v al = al @ [(k, v)]"
  by (induction al) auto

lemma fold_update_distinct:
  "distinct (map fst xs) \<Longrightarrow> fst ` set acc \<inter> fst ` set xs = {} \<Longrightarrow>
   fold (\<lambda>x. AList.update (fst x) (g x)) xs acc = acc @ map (\<lambda>x. (fst x, g x)) xs"
proof (induction xs arbitrary: acc)
  case Nil
  then show ?case by simp
next
  case (Cons x xs)
  from Cons.prems have fresh: "fst x \<notin> fst ` set acc" by auto
  have "fold (\<lambda>x. AList.update (fst x) (g x)) (x # xs) acc
        = fold (\<lambda>x. AList.update (fst x) (g x)) xs (acc @ [(fst x, g x)])"
    using fresh by (simp add: update_fresh)
  also have "\<dots> = (acc @ [(fst x, g x)]) @ map (\<lambda>x. (fst x, g x)) xs"
    using Cons.prems by (intro Cons.IH) auto
  finally show ?case by simp
qed

lemma build_batches_distinct:
  assumes "distinct (map fst infos)"
  shows "build_batches l p alias nb infos
         = map (\<lambda>x. (fst x, batch_of_info l p (case alias of None \<Rightarrow> '''' | Some a \<Rightarrow> a @ ''.'')
                                  nb x)) infos"
  unfolding build_batches_def Let_def
  using fold_update_distinct[OF assms, of "[]"] by simp

lemma py_int_div10: "0 \<le> N \<Longrightarrow> py_int (of_int N / 10) = N div 10"
proof -
  assume "0 \<le> N"
  have "\<lfloor>real_of_int N / real_of_int 10\<rfloor> = N div 10" by (rule floor_divide_of_int_eq)
  then show ?thesis using \<open>0 \<le> N\<close> by (simp add: py_int_def)
qed

lemma prepare_batches_cases:
  assumes "prepare_batches ev p l alias li nb0 w = (Inr bs, w')"
  shows "\<exists>nb. nb = (if nb0 > py_int (of_int (featurecount li) / 10)
                     then max (py_int (of_int (featurecount li) / 10)) 1 else nb0)
         \<and> ((nb = 1 \<and> bs = [(0, \<lparr> layer = l, path = p, batch_filter = NoFilter \<rparr>)])
            \<or> (nb \<noteq> 1 \<and> nb \<noteq> 0
                \<and> rowids_consecutive (table_rowids ev p (name li)) (featurecount li)
                \<and> (\<exists>r opb. bs = build_batches l p alias nb
                      (dense_batch_info_list nb r opb
                         (Max (set (table_rowids ev p (name li)))) 0 [0 .. nb - 1])))
            \<or> (nb \<noteq> 1 \<and> 0 < nb
                \<and> \<not> rowids_consecutive (table_rowids ev p (name li)) (featurecount li)
                \<and> bs = build_batches l p alias nb
                      (map (\<lambda>(i, g). (i, int (length g), Min (set g), Max (set g)))
                         (ntile (nat nb) (table_rowids ev p (name li))))))"
  using assms
  by (auto simp: prepare_batches_def Let_def sparse_batch_info_def split: if_splits)

lemma dense_ids:
  "map fst (dense_batch_info_list nb r opb mx off ids) = ids"
  by (induction ids arbitrary: off) (simp_all add: Let_def)

lemma dense_length:
  "length (dense_batch_info_list nb r opb mx off ids) = length ids"
  using dense_ids[of nb r opb mx off ids] by (metis length_map)

lemma dense_last:
  "ids \<noteq> [] \<Longrightarrow> last ids = nb - 1 \<Longrightarrow>
   \<exists>s. last (dense_batch_info_list nb r opb mx off ids) = (nb - 1, r, s, mx)"
proof (induction ids arbitrary: off)
  case Nil
  then show ?case by simp
next
  case (Cons i ids)
  show ?case
  proof (cases "ids = []")
    case True
    with Cons.prems show ?thesis by (simp add: Let_def)
  next
    case False
    with Cons.prems have "last ids = nb - 1" by simp
    from Cons.IH[OF False this, of "off + opb"] obtain s where
      "last (dense_batch_info_list nb r opb mx (off + opb) ids) = (nb - 1, r, s, mx)" by blast
    moreover have "dense_batch_info_list nb r opb mx (off + opb) ids \<noteq> []"
      using False dense_length[of nb r opb mx "off + opb" ids] by (metis length_0_conv)
    ultimately show ?thesis by (simp add: Let_def)
  qed
qed

lemma split_sizes_length: "length (split_sizes ks xs) = length ks"
  by (induction ks arbitrary: xs) simp_all

lemma split_sizes_nonempty:
  "\<forall>k \<in> set ks. 1 \<le> k \<Longrightarrow> sum_list ks \<le> length xs \<Longrightarrow>
   \<forall>g \<in> set (split_sizes ks xs). g \<noteq> []"
proof (induction ks arbitrary: xs)
  case Nil
  then show ?case by simp
next
  case (Cons k ks)
  from Cons.prems have k: "1 \<le> k" "k \<le> length xs" by auto
  then have "take k xs \<noteq> []" by auto
  moreover have "\<forall>g \<in> set (split_sizes ks (drop k xs)). g \<noteq> []"
    using Cons.prems by (intro Cons.IH) auto
  ultimately show ?case by simp
qed

lemma ntile_sizes_sum:
  assumes "0 < n"
  shows "sum_list (ntile_sizes n N) = N"
proof -
  let ?q = "N div n" and ?r = "N mod n"
  have r: "?r < n" using assms by simp
  have "sum_list (ntile_sizes n N) = (\<Sum>i = 0..<n. ?q + (if i < ?r then 1 else 0))"
    by (simp add: ntile_sizes_def interv_sum_list_conv_sum_set_nat)
  also have "\<dots> = n * ?q + (\<Sum>i = 0..<n. if i < ?r then 1 else 0)"
    by (simp add: sum.distrib)
  also have "(\<Sum>i = 0..<n. if i < ?r then 1 else (0::nat)) = card ({0..<n} \<inter> {i. i < ?r})"
    by (simp add: sum.If_cases)
  also have "{0..<n} \<inter> {i. i < ?r} = {0..<?r}"
    using r by auto
  finally show ?thesis by simp
qed

lemma ntile_sizes_ge: "0 < n \<Longrightarrow> n \<le> N \<Longrightarrow> \<forall>k \<in> set (ntile_sizes n N). 1 \<le> k"
  by (auto simp: ntile_sizes_def Suc_le_eq div_greater_zero_iff)

lemma ntile_full:
  assumes "0 < n" "n \<le> length rowids"
  shows "ntile n rowids
         = zip (map int [1 ..< n + 1])
               (split_sizes (ntile_sizes n (length rowids)) (sort rowids))"
proof -
  have "\<forall>g \<in> set (split_sizes (ntile_sizes n (length rowids)) (sort rowids)). g \<noteq> []"
    using assms by (intro split_sizes_nonempty ntile_sizes_ge) (simp_all add: ntile_sizes_sum)
  then have "\<forall>x \<in> set (zip (map int [1 ..< n + 1])
               (split_sizes (ntile_sizes n (length rowids)) (sort rowids))). snd x \<noteq> []"
    by (auto dest: set_zip_rightD)
  then show ?thesis
    unfolding ntile_def by (simp add: case_prod_unfold)
qed

lemma ntile_ids:
  assumes "0 < n" "n \<le> length rowids"
  shows "map fst (ntile n rowids) = map int [1 ..< n + 1]"
  using assms by (simp add: ntile_full split_sizes_length ntile_sizes_def)

lemma batch_of_info_lt:
  "fst i < nb \<Longrightarrow> \<exists>s e. batch_filter (batch_of_info l p a nb i) = Between a s e"
  by (cases i) (auto simp: batch_of_info_def)

lemma batch_of_info_ge:
  "\<not> fst i < nb \<Longrightarrow> batch_filter (batch_of_info l p a nb i) = AtLeast a (fst (snd (snd i)))"
  by (cases i) (auto simp: batch_of_info_def)

lemma last_upto_int: "i \<le> j \<Longrightarrow> last [i..j] = (j::int)"
  by (subst upto_rec2) simp_all

lemma in_butlast_fst: "i \<in> set (butlast xs) \<Longrightarrow> fst i \<in> set (butlast (map fst xs))"
  by (simp add: map_butlast[symmetric])

lemma butlast_upt_Suc: "butlast [m ..< n + 1] = [m ..< n]"
  by (cases "m \<le> n") simp_all

lemma clamp_ge2:
  assumes "nb = (if nb0 > q then max q 1 else nb0)" "2 \<le> (nb::int)"
  shows "nb \<le> q"
  using assms by (auto split: if_splits simp: max_def)

lemma prepare_batches_dense_form:
  assumes "nb \<noteq> 0"
  shows "build_batches l p alias nb (dense_batch_info_list nb r opb mx 0 [0 .. nb - 1])
         = map (\<lambda>x. (fst x, batch_of_info l p (case alias of None \<Rightarrow> '''' | Some a \<Rightarrow> a @ ''.'') nb x))
             (dense_batch_info_list nb r opb mx 0 [0 .. nb - 1])"
  by (rule build_batches_distinct) (simp add: dense_ids)

lemma prepare_batches_last:
  assumes run: "prepare_batches ev p l alias li nb0 w = (Inr bs, w')"
    and many: "1 < length bs"
    and rows: "featurecount li = int (length (table_rowids ev p (name li)))"
  shows "if rowids_consecutive (table_rowids ev p (name li)) (featurecount li)
         then (\<forall>x \<in> set bs. \<exists>s e. batch_filter (snd x)
                 = Between (case alias of None \<Rightarrow> '''' | Some a \<Rightarrow> a @ ''.'') s e)
            \<and> (\<exists>s. batch_filter (snd (last bs))
                 = Between (case alias of None \<Rightarrow> '''' | Some a \<Rightarrow> a @ ''.'') s
                     (Max (set (table_rowids ev p (name li)))))
         else (\<forall>x \<in> set (butlast bs). \<exists>s e. batch_filter (snd x)
                 = Between (case alias of None \<Rightarrow> '''' | Some a \<Rightarrow> a @ ''.'') s e)
            \<and> (\<exists>s. batch_filter (snd (last bs))
                 = AtLeast (case alias of None \<Rightarrow> '''' | Some a \<Rightarrow> a @ ''.'') s)"
proof -
  let ?a = "case alias of None \<Rightarrow> '''' | Some a \<Rightarrow> a @ ''.''"
  let ?rowids = "table_rowids ev p (name li)"
  let ?q = "py_int (of_int (featurecount li) / 10)"
  from prepare_batches_cases[OF run] obtain nb where
    nb: "nb = (if nb0 > ?q then max ?q 1 else nb0)"
    and cases: "(nb = 1 \<and> bs = [(0, \<lparr> layer = l, path = p, batch_filter = NoFilter \<rparr>)])
            \<or> (nb \<noteq> 1 \<and> nb \<noteq> 0 \<and> rowids_consecutive ?rowids (featurecount li)
                \<and> (\<exists>r opb. bs = build_batches l p alias nb
                      (dense_batch_info_list nb r opb (Max (set ?rowids)) 0 [0 .. nb - 1])))
            \<or> (nb \<noteq> 1 \<and> 0 < nb \<and> \<not> rowids_consecutive ?rowids (featurecount li)
                \<and> bs = build_batches l p alias nb
                      (map (\<lambda>(i, g). (i, int (length g), Min (set g), Max (set g)))
                         (ntile (nat nb) ?rowids)))"
    by blast
  from cases many consider
    (dense) r opb where "nb \<noteq> 1" "nb \<noteq> 0" "rowids_consecutive ?rowids (featurecount li)"
        "bs = build_batches l p alias nb
                (dense_batch_info_list nb r opb (Max (set ?rowids)) 0 [0 .. nb - 1])"
    | (sparse) "nb \<noteq> 1" "0 < nb" "\<not> rowids_consecutive ?rowids (featurecount li)"
        "bs = build_batches l p alias nb
                (map (\<lambda>(i, g). (i, int (length g), Min (set g), Max (set g)))
                   (ntile (nat nb) ?rowids))"
    by auto
  then show ?thesis
  proof cases
    case dense
    let ?infos = "dense_batch_info_list nb r opb (Max (set ?rowids)) 0 [0 .. nb - 1]"
    have bs: "bs = map (\<lambda>x. (fst x, batch_of_info l p ?a nb x)) ?infos"
      using dense(4) prepare_batches_dense_form[OF dense(2)] by simp
    have len: "length bs = nat nb"
      using bs by (simp add: dense_length)
    with many have nb2: "2 \<le> nb" by simp
    have ids: "\<forall>i \<in> set ?infos. fst i < nb"
    proof
      fix i assume "i \<in> set ?infos"
      then have "fst i \<in> set (map fst ?infos)" by simp
      then have "fst i \<in> set [0 .. nb - 1]" by (simp only: dense_ids)
      then show "fst i < nb" by simp
    qed
    have all: "\<forall>x \<in> set bs. \<exists>s e. batch_filter (snd x) = Between ?a s e"
      using bs ids by (auto intro: batch_of_info_lt)
    have ne: "[0 .. nb - 1] \<noteq> []" using nb2 by simp
    have lst: "last [0 .. nb - 1] = nb - 1" using nb2 by (simp add: last_upto_int)
    from dense_last[OF ne lst, of r opb "Max (set ?rowids)" 0] obtain s where
      s: "last ?infos = (nb - 1, r, s, Max (set ?rowids))" by blast
    have infos_ne: "?infos \<noteq> []"
      using ne dense_length[of nb r opb "Max (set ?rowids)" 0 "[0 .. nb - 1]"]
      by (metis length_0_conv)
    have "last bs = (nb - 1, batch_of_info l p ?a nb (nb - 1, r, s, Max (set ?rowids)))"
      using bs infos_ne s by (simp add: last_map)
    then have "batch_filter (snd (last bs)) = Between ?a s (Max (set ?rowids))"
      by (simp add: batch_of_info_def)
    with all dense(3) show ?thesis by auto
  next
    case sparse
    from sparse(1,2) have nb2: "2 \<le> nb" by simp
    have N0: "0 \<le> featurecount li" using rows by simp
    from clamp_ge2[OF nb nb2] have "nb \<le> featurecount li div 10"
      using py_int_div10[OF N0] by simp
    then have nle: "nat nb \<le> length ?rowids" using rows nb2 by linarith
    have npos: "0 < nat nb" using nb2 by simp
    let ?infos = "map (\<lambda>(i, g). (i, int (length g), Min (set g), Max (set g)))
                   (ntile (nat nb) ?rowids)"
    have ids: "map fst ?infos = map int [1 ..< nat nb + 1]"
      using ntile_ids[OF npos nle] by (simp add: case_prod_unfold comp_def)
    have dist: "distinct (map fst ?infos)"
      unfolding ids by (simp add: distinct_map inj_on_def)
    have bs: "bs = map (\<lambda>x. (fst x, batch_of_info l p ?a nb x)) ?infos"
      using sparse(4) build_batches_distinct[OF dist] by simp
    have infos_ne: "?infos \<noteq> []"
      using ids npos by (metis length_0_conv length_map length_upt add_diff_cancel_right' less_numeral_extra(3))
    have "fst (last ?infos) = last (map fst ?infos)"
      using infos_ne by (simp add: last_map)
    also have "\<dots> = int (nat nb)"
    proof -
      have "[1 ..< nat nb + 1] = [1 ..< nat nb] @ [nat nb]" using npos by simp
      then show ?thesis unfolding ids by simp
    qed
    finally have lastid: "fst (last ?infos) = nb" using nb2 by simp
    have "last bs = (fst (last ?infos), batch_of_info l p ?a nb (last ?infos))"
      using bs infos_ne by (simp add: last_map)
    then have lastf: "\<exists>s. batch_filter (snd (last bs)) = AtLeast ?a s"
      using lastid batch_of_info_ge[of "last ?infos" nb l p ?a] by simp
    have "\<forall>i \<in> set (butlast ?infos). fst i < nb"
    proof
      fix i assume i: "i \<in> set (butlast ?infos)"
      then have "fst i \<in> set (butlast (map fst ?infos))" by (rule in_butlast_fst)
      then have "fst i \<in> set (map int [1 ..< nat nb])"
        unfolding ids by (simp only: map_butlast[symmetric] butlast_upt_Suc)
      then show "fst i < nb" by auto
    qed
    moreover have "butlast bs = map (\<lambda>x. (fst x, batch_of_info l p ?a nb x)) (butlast ?infos)"
      unfolding bs by (rule map_butlast[symmetric])
    ultimately have "\<forall>x \<in> set (butlast bs). \<exists>s e. batch_filter (snd x) = Between ?a s e"
      by (auto intro: batch_of_info_lt)
    with lastf sparse(3) show ?thesis by auto
  qed
qed

lemma planner_batches:
  assumes "prepare_processing_params ev input1_path input1_layer tempdir conv nb_parallel
             batchsize alias input2_path input2_layer w = (Inr (Some pp), w')"
  shows "\<exists>p1 li nb0 w1 bs.
           pp_input1_path pp = Some p1
         \<and> get_layerinfo ev p1 input1_layer = Inr li
         \<and> prepare_batches ev p1 input1_layer alias li nb0 w1 = (Inr bs, w')
         \<and> pp_batches pp = Some bs"
  using assms
  unfolding prepare_processing_params_def Let_def
  by (auto split: sum.splits if_splits prod.splits) blast+

text \<open>
  Claim C4, as amended. When the planner returns more than one batch, and the feature
  count the driver reports for the prepared layer is the number of rows of its
  table: if the rowids are nearly consecutive (the test of line 1661 holds, computed
  as the code computes it, with the difference of the two \<^verbatim>\<open>numpy.int64\<close> values
  wrapping around), every batch, the last one too, gets a
  bounded filter \<open>[start, end]\<close>, and the upper bound of the last one is the largest
  rowid of the layer; if the rowids have gaps, the last emitted batch has the filter
  \<open>rowid >= start\<close> with no upper bound and every other batch a bounded one. In both
  cases every row of the layer at or after the last start satisfies the last filter:
  no trailing row is dropped.
\<close>

theorem planner_last_batch_filter:
  assumes run: "prepare_processing_params ev input1_path input1_layer tempdir
                  convert_to_spatialite_based nb_parallel batchsize input1_layer_alias
                  input2_path input2_layer w = (Inr (Some pp), w')"
    and bs: "pp_batches pp = Some bs"
    and many: "1 < length bs"
    and p1: "pp_input1_path pp = Some p1"
    and li: "get_layerinfo ev p1 input1_layer = Inr layer1_info"
    and rows: "featurecount layer1_info
                 = int (length (table_rowids ev p1 (name layer1_info)))"
  shows "\<exists>start.
           (if rowids_consecutive (table_rowids ev p1 (name layer1_info))
                 (featurecount layer1_info)
            then (\<forall>x \<in> set bs. \<exists>s e. batch_filter (snd x)
                    = Between (case input1_layer_alias of None \<Rightarrow> '''' | Some a \<Rightarrow> a @ ''.'') s e)
               \<and> batch_filter (snd (last bs))
                    = Between (case input1_layer_alias of None \<Rightarrow> '''' | Some a \<Rightarrow> a @ ''.'')
                        start (Max (set (table_rowids ev p1 (name layer1_info))))
            else (\<forall>x \<in> set (butlast bs). \<exists>s e. batch_filter (snd x)
                    = Between (case input1_layer_alias of None \<Rightarrow> '''' | Some a \<Rightarrow> a @ ''.'') s e)
               \<and> batch_filter (snd (last bs))
                    = AtLeast (case input1_layer_alias of None \<Rightarrow> '''' | Some a \<Rightarrow> a @ ''.'')
                        start)
         \<and> (\<forall>rowid \<in> set (table_rowids ev p1 (name layer1_info)).
                start \<le> rowid \<longrightarrow> matches (batch_filter (snd (last bs))) rowid)"
proof -
  let ?a = "case input1_layer_alias of None \<Rightarrow> '''' | Some a \<Rightarrow> a @ ''.''"
  let ?rowids = "table_rowids ev p1 (name layer1_info)"
  from planner_batches[OF run] bs p1 li obtain nb0 w1 where
    pb: "prepare_batches ev p1 input1_layer input1_layer_alias layer1_info nb0 w1 = (Inr bs, w')"
    by auto
  note last = prepare_batches_last[OF pb many rows]
  show ?thesis
  proof (cases "rowids_consecutive ?rowids (featurecount layer1_info)")
    case True
    with last obtain s where
      all: "\<forall>x \<in> set bs. \<exists>s e. batch_filter (snd x) = Between ?a s e"
      and s: "batch_filter (snd (last bs)) = Between ?a s (Max (set ?rowids))"
      by auto
    have "\<forall>rowid \<in> set ?rowids. s \<le> rowid \<longrightarrow> matches (batch_filter (snd (last bs))) rowid"
      using s by simp
    with True all s show ?thesis by auto
  next
    case False
    with last obtain s where
      all: "\<forall>x \<in> set (butlast bs). \<exists>s e. batch_filter (snd x) = Between ?a s e"
      and s: "batch_filter (snd (last bs)) = AtLeast ?a s"
      by auto
    have "\<forall>rowid \<in> set ?rowids. s \<le> rowid \<longrightarrow> matches (batch_filter (snd (last bs))) rowid"
      using s by simp
    with False all s show ?thesis by auto
  qed
qed

text \<open>
  The density test on rowids that span more than \<open>2 ^ 63\<close>: the difference wraps to a
  negative number, and the test holds.
\<close>

lemma rowids_consecutive_wraps:
  "rowids_consecutive [- 5000000000000000000, 0, 5000000000000000000] 3
   \<and> int64_sub 5000000000000000000 (- 5000000000000000000) = - 8446744073709551616"
  by (simp add: rowids_consecutive_def int64_sub_def)

text \<open>
  The claim as stated fails on rowids \<open>1, ..., 20\<close> with \<^verbatim>\<open>nb_parallel=2\<close>: two
  batches are returned and the filter of the last one is bounded,
  \<^verbatim>\<open>AND (layer.rowid >= 10 AND layer.rowid <= 20) \<close>. The ids of the loop of line
  1668 start at 0, so the test \<^verbatim>\<open>batch_info.id < nb_batches\<close> of line 1712 holds for
  all of them.
\<close>

theorem planner_last_batch_filter_counterexample:
  "fst (prepare_processing_params (example_env (consecutive_rowids 20)) [''in.gpkg'']
          ''parcels'' [''tmp''] False 2 (- 1) (Some ''layer'') None None example_world)
   = Inr (Some \<lparr> pp_input1_path = Some [''in.gpkg''], pp_input1_layer = Some ''parcels'',
          pp_input1_databasename = Some ''main'', pp_input2_path = None,
          pp_input2_layer = None, pp_input2_databasename = Some ''main'',
          pp_nb_parallel = 2,
          pp_batches = Some
             [(0, \<lparr>layer = ''parcels'', path = [''in.gpkg''],
                     batch_filter = Between ''layer.'' 0 9\<rparr>),
              (1, \<lparr>layer = ''parcels'', path = [''in.gpkg''],
                     batch_filter = Between ''layer.'' 10 20\<rparr>)] \<rparr>)"
  by code_simp

theorem planner_last_batch_filter_witness:
  "fst (prepare_processing_params (example_env (gapped_rowids 20)) [''in.gpkg'']
          ''parcels'' [''tmp''] False 2 (- 1) (Some ''layer'') None None example_world)
   = Inr (Some \<lparr> pp_input1_path = Some [''in.gpkg''], pp_input1_layer = Some ''parcels'',
          pp_input1_databasename = Some ''main'', pp_input2_path = None,
          pp_input2_layer = None, pp_input2_databasename = Some ''main'',
          pp_nb_parallel = 2,
          pp_batches = Some
             [(1, \<lparr>layer = ''parcels'', path = [''in.gpkg''],
                     batch_filter = Between ''layer.'' 3 30\<rparr>),
              (2, \<lparr>layer = ''parcels'', path = [''in.gpkg''],
                     batch_filter = AtLeast ''layer.'' 33\<rparr>)] \<rparr>)
   \<and> \<not> rowids_consecutive (gapped_rowids 20) 20
   \<and> (\<exists>start. batch_filter \<lparr>layer = ''parcels'', path = [''in.gpkg''],
                     batch_filter = AtLeast ''layer.'' 33\<rparr> = AtLeast ''layer.'' start
         \<and> (\<forall>rowid \<in> set (gapped_rowids 20). start \<le> rowid \<longrightarrow>
               matches (AtLeast ''layer.'' 33) rowid))"
proof -
  let ?ev = "example_env (gapped_rowids 20)"
  let ?bs = "[(1, \<lparr>layer = ''parcels'', path = [''in.gpkg''],
                     batch_filter = Between ''layer.'' 3 30\<rparr>),
              (2, \<lparr>layer = ''parcels'', path = [''in.gpkg''],
                     batch_filter = AtLeast ''layer.'' 33\<rparr>)]"
  let ?pp = "\<lparr> pp_input1_path = Some [''in.gpkg''], pp_input1_layer = Some ''parcels'',
          pp_input1_databasename = Some ''main'', pp_input2_path = None,
          pp_input2_layer = None, pp_input2_databasename = Some ''main'',
          pp_nb_parallel = 2, pp_batches = Some ?bs \<rparr>"
  let ?li = "\<lparr> name = ''parcels'', featurecount = 20, geometrycolumn = ''geom'',
               layer_columns = [''id'', ''Name''], crs = ''EPSG:31370'' \<rparr>"
  let ?run = "prepare_processing_params ?ev [''in.gpkg''] ''parcels'' [''tmp''] False 2 (- 1)
                (Some ''layer'') None None example_world"
  have f: "fst ?run = Inr (Some ?pp)" by code_simp
  then have run: "?run = (Inr (Some ?pp), snd ?run)" by (metis prod.collapse)
  have len: "length (gapped_rowids 20) = 20" by code_simp
  have li: "get_layerinfo ?ev [''in.gpkg''] ''parcels'' = Inr ?li"
    by (simp add: example_env_def len)
  have rows: "featurecount ?li = int (length (table_rowids ?ev [''in.gpkg''] (name ?li)))"
    by (simp add: example_env_def len)
  have nc: "\<not> rowids_consecutive (gapped_rowids 20) 20" by code_simp
  have tr: "table_rowids ?ev [''in.gpkg''] (name ?li) = gapped_rowids 20"
    by (simp add: example_env_def)
  from planner_last_batch_filter[OF run _ _ _ li rows, of ?bs] nc f
  show ?thesis by (simp add: tr)
qed

text \<open>
  Claim C1 says that for every layer and every valid combination of \<^verbatim>\<open>nb_parallel\<close>
  (-1 or at least 1) and \<^verbatim>\<open>batchsize\<close> (-1 or positive) every existing rowid
  satisfies the filter of exactly one batch. With \<^verbatim>\<open>nb_parallel=-1\<close> and a positive
  \<^verbatim>\<open>batchsize\<close> line 1578 multiplies the batch size with the parameter, -1, and not
  with the resolved \<^verbatim>\<open>returnvalue.nb_parallel\<close> the lines after it use: for 200 rows
  with the rowids \<open>1, ..., 200\<close>, four cores and \<^verbatim>\<open>batchsize=10\<close> the row limit is
  -10, \<^verbatim>\<open>nb_batches\<close> is \<open>int(200/(-10/2)) = -40\<close>, the loop over
  \<^verbatim>\<open>range(-40)\<close> makes no batch, and the planner returns an empty dict of batches
  and \<^verbatim>\<open>nb_parallel = 0\<close>: no row is in any batch.
\<close>

theorem planner_auto_parallel_with_batchsize:
  "fst (prepare_processing_params (example_env (consecutive_rowids 200)) [''in.gpkg'']
          ''parcels'' [''tmp''] False (- 1) 10 (Some ''layer'') None None example_world)
   = Inr (Some \<lparr> pp_input1_path = Some [''in.gpkg''], pp_input1_layer = Some ''parcels'',
          pp_input1_databasename = Some ''main'', pp_input2_path = None,
          pp_input2_layer = None, pp_input2_databasename = Some ''main'',
          pp_nb_parallel = 0,
          pp_batches = Some [] \<rparr>)"
  by code_simp

text \<open>
  A second defect of the dense path: the ranges start at \<^verbatim>\<open>offset = 0\<close> (line 1666)
  and not at \<^verbatim>\<open>min_rowid\<close>, so rows with a negative rowid, which the engine allows,
  are in no batch. For the 21 rowids \<open>-10, ..., 10\<close> the batches are \<open>[0, 9]\<close> and
  \<open>[10, 10]\<close>.
\<close>

lemma planner_negative_rowids:
  "fst (prepare_processing_params (example_env [- 10 .. 10]) [''in.gpkg'']
          ''parcels'' [''tmp''] False 2 (- 1) (Some ''layer'') None None example_world)
   = Inr (Some \<lparr> pp_input1_path = Some [''in.gpkg''], pp_input1_layer = Some ''parcels'',
          pp_input1_databasename = Some ''main'', pp_input2_path = None,
          pp_input2_layer = None, pp_input2_databasename = Some ''main'',
          pp_nb_parallel = 2,
          pp_batches = Some
             [(0, \<lparr>layer = ''parcels'', path = [''in.gpkg''],
                     batch_filter = Between ''layer.'' 0 9\<rparr>),
              (1, \<lparr>layer = ''parcels'', path = [''in.gpkg''],
                     batch_filter = Between ''layer.'' 10 10\<rparr>)] \<rparr>)"
  by code_simp

section \<open>The operations\<close>

subsection \<open>What the steps leave alone\<close>

text \<open>
  Logging, removing a file, making and removing directories submit nothing and run
  no statement; what they do to the file system, path by path.
\<close>

lemma submitted_jobs_simps [simp]:
  "submitted_jobs (log_event m w) = submitted_jobs w"
  "submitted_jobs (gfo_remove p w) = submitted_jobs w"
  "submitted_jobs (mkdir_parents p w) = submitted_jobs w"
  "submitted_jobs (rmtree p w) = submitted_jobs w"
  "submitted_jobs (snd (io_create_tempdir ev b w)) = submitted_jobs w"
  by (simp_all add: submitted_jobs_def log_event_def gfo_remove_def mkdir_parents_def
      rmtree_def io_create_tempdir_def)

lemma sql_reads_simps [simp]:
  "sql_reads (log_event m w) = sql_reads w"
  "sql_reads (gfo_remove p w) = sql_reads w"
  "sql_reads (mkdir_parents p w) = sql_reads w"
  "sql_reads (rmtree p w) = sql_reads w"
  "sql_reads (snd (io_create_tempdir ev b w)) = sql_reads w"
  by (simp_all add: sql_reads_def log_event_def gfo_remove_def mkdir_parents_def
      rmtree_def io_create_tempdir_def)

lemma fs_simps [simp]:
  "fs (log_event m w) = fs w"
  "fs (gfo_remove p w) q = (if q = p then None else fs w q)"
  "fs (mkdir_parents p w) q = (if prefix q p \<and> fs w q = None then Some Dir else fs w q)"
  "fs (rmtree p w) q = (if prefix p q then None else fs w q)"
  "fs (snd (io_create_tempdir ev b w)) q
     = (if q = create_tempdir ev b then Some Dir else fs w q)"
  "fst (io_create_tempdir ev b w) = create_tempdir ev b"
  by (simp_all add: log_event_def gfo_remove_def mkdir_parents_def
      rmtree_def io_create_tempdir_def)

subsection \<open>An output that exists already\<close>




text \<open>
  Whatever the checks say, the invocation leaves the file system as it was, submits
  nothing and runs no statement.
\<close>

lemma existing_output_untouched:
  assumes "path_exists w output_path"
  shows "fs (snd (single_layer_vector_operation ev input_path output_path sql_template
                    operation_name input_layer output_layer columns_param
                    explodecollections force_output_geometrytype filter_null_geoms
                    nb_parallel batchsize False w)) = fs w
       \<and> submitted_jobs (snd (single_layer_vector_operation ev input_path output_path
                    sql_template operation_name input_layer output_layer columns_param
                    explodecollections force_output_geometrytype filter_null_geoms
                    nb_parallel batchsize False w)) = submitted_jobs w
       \<and> sql_reads (snd (single_layer_vector_operation ev input_path output_path
                    sql_template operation_name input_layer output_layer columns_param
                    explodecollections force_output_geometrytype filter_null_geoms
                    nb_parallel batchsize False w)) = sql_reads w
       \<and> fs (snd (two_layer_vector_operation ev input1_path input2_path output_path
                    sql_template operation_name input1_layer input1_columns
                    input1_columns_prefix input2_layer input2_columns
                    input2_columns_prefix output_layer explodecollections
                    force_output_geometrytype output_with_spatial_index use_ogr
                    nb_parallel batchsize verbose False w)) = fs w
       \<and> submitted_jobs (snd (two_layer_vector_operation ev input1_path input2_path
                    output_path sql_template operation_name input1_layer input1_columns
                    input1_columns_prefix input2_layer input2_columns
                    input2_columns_prefix output_layer explodecollections
                    force_output_geometrytype output_with_spatial_index use_ogr
                    nb_parallel batchsize verbose False w)) = submitted_jobs w
       \<and> sql_reads (snd (two_layer_vector_operation ev input1_path input2_path
                    output_path sql_template operation_name input1_layer input1_columns
                    input1_columns_prefix input2_layer input2_columns
                    input2_columns_prefix output_layer explodecollections
                    force_output_geometrytype output_with_spatial_index use_ogr
                    nb_parallel batchsize verbose False w)) = sql_reads w"
  using assms
  by (auto simp: single_layer_vector_operation_def two_layer_vector_operation_def
      Let_def split: sum.splits)

subsection \<open>An empty input layer\<close>

text \<open>
  Lines 1560 to 1564: the planner logs and returns \<^verbatim>\<open>None\<close>; then what the two
  operations do from their first line to the \<^verbatim>\<open>return\<close> of lines 1365 and 418.
\<close>

lemma planner_empty_layer:
  assumes "get_layerinfo ev input1_path input1_layer = Inr input1_layerinfo"
    and "featurecount input1_layerinfo = 0"
  shows "prepare_processing_params ev input1_path input1_layer tempdir
           convert_to_spatialite_based nb_parallel batchsize input1_layer_alias
           input2_path input2_layer w
         = (Inr None,
            log_event (''The input layer doesn't contain any rows. File: ''
                       @ path_str input1_path @ '', layer: '' @ input1_layer) w)"
  using assms by (simp add: prepare_processing_params_def)

lemma two_layer_try_empty:
  assumes li: "get_layerinfo ev input1_path layer1_name = Inr input1_layerinfo"
    and empty: "featurecount input1_layerinfo = 0"
  shows "two_layer_try ev input1_path input2_path output_path sql_template operation_name
           layer1_name input1_columns input1_columns_prefix layer2_name input2_columns input2_columns_prefix
           output_layer explodecollections force_output_geometrytype
           output_with_spatial_index use_ogr nb_parallel batchsize verbose tempdir
           tmp_output_path w
         = (Inr Returned,
            log_event (''The input layer doesn't contain any rows. File: ''
                       @ path_str input1_path @ '', layer: '' @ layer1_name)
              (log_event (''Prepare input (params) for '' @ operation_name
                          @ '' with tempdir: '' @ path_str tempdir) w))"
  by (simp add: two_layer_try_def Let_def planner_empty_layer[OF li empty])

lemma two_layer_empty_run:
  assumes li: "get_layerinfo ev input1_path layer1_name = Inr input1_layerinfo"
    and empty: "featurecount input1_layerinfo = 0"
    and e1: "path_exists w input1_path" and e2: "path_exists w input2_path"
    and ogr: "\<not> (use_ogr \<and> input1_path \<noteq> input2_path)"
    and noop: "\<not> (path_exists w output_path \<and> \<not> force)"
    and deps: "check_runtimedependencies ev = None"
    and r1: "(case input1_layer of None \<Rightarrow> get_only_layer ev input1_path | Some l \<Rightarrow> Inr l)
               = Inr layer1_name"
    and r2: "(case input2_layer of None \<Rightarrow> get_only_layer ev input2_path | Some l \<Rightarrow> Inr l)
               = Inr layer2_name"
    and li2: "get_layerinfo ev input2_path layer2_name = Inr input2_layerinfo"
  shows "two_layer_vector_operation ev input1_path input2_path output_path
           sql_template operation_name input1_layer input1_columns
           input1_columns_prefix input2_layer input2_columns input2_columns_prefix
           output_layer explodecollections force_output_geometrytype
           output_with_spatial_index use_ogr nb_parallel batchsize verbose force w
         = (Inr (),
            log_event (''The input layer doesn't contain any rows. File: ''
                       @ path_str input1_path @ '', layer: '' @ layer1_name)
              (log_event (''Prepare input (params) for '' @ operation_name
                          @ '' with tempdir: ''
                          @ path_str (create_tempdir ev (''geofileops/'' @ operation_name)))
                 (gfo_remove
                    (path_join (create_tempdir ev (''geofileops/'' @ operation_name))
                       (path_name output_path))
                    (mkdir_parents (create_tempdir ev (''geofileops/'' @ operation_name))
                       (snd (io_create_tempdir ev (''geofileops/'' @ operation_name)
                               (if path_exists w output_path then gfo_remove output_path w
                                else w)))))))"
proof -
  have pp: "path_parent (path_join d n) = d" for d n
    by (simp add: path_parent_def path_join_def)
  have noop': "(path_exists w output_path \<and> \<not> force) = False"
    using noop by simp
  have ogr': "(use_ogr \<and> input1_path \<noteq> input2_path) = False"
    using ogr by simp
  show ?thesis
    unfolding two_layer_vector_operation_def
    using e1 e2 deps r1 r2 li li2
    by (simp add: Let_def io_create_tempdir_def pp noop' ogr'
        two_layer_try_empty[OF li empty] del: append.simps)
qed





subsection \<open>A worker that raises\<close>

text \<open>
  What the steps of the body of the \<^verbatim>\<open>try\<close> do to the working directory: the planner
  writes converted inputs into it, the pool the partial files, the loop over the
  futures appends and removes them; the directory itself stays.
\<close>

lemma fs_steps [simp]:
  "fs (read_file_sql p q w) = fs w"
  "fs (report_progress a b w) = fs w"
  "fs (gfo_convert ev src sl dst dl w) x
     = (if x = dst then Some (File (converted ev src sl)) else fs w x)"
  "x \<noteq> job_output_path j \<Longrightarrow> fs (pool_submit ev j w) x = fs w x"
  "x \<noteq> dst \<Longrightarrow> fs (gfo_append_to src dst w) x = fs w x"
  by (simp_all add: read_file_sql_def report_progress_def gfo_convert_def pool_submit_def
      gfo_append_to_def Let_def split: worker_result.splits option.splits)

lemma path_join_neq [simp]: "path_join d n \<noteq> d" "d \<noteq> path_join d n"
  by (simp_all add: path_join_def)

lemma prepare_input_files_fs:
  assumes "prepare_input_files ev p1 l1 d conv p2 l2 w = (r, w')"
  shows "fs w' d = fs w d"
  using assms
  by (auto simp: prepare_input_files_def Let_def split: option.splits if_splits)

lemma prepare_batches_fs:
  assumes "prepare_batches ev p l a li n w = (r, w')"
  shows "fs w' = fs w"
  using assms
  by (auto simp: prepare_batches_def Let_def split: sum.splits if_splits)

lemma planner_fs:
  assumes "prepare_processing_params ev p1 l1 d conv n b a p2 l2 w = (r, w')"
  shows "fs w' d = fs w d"
  using assms
  unfolding prepare_processing_params_def Let_def
  by (auto split: sum.splits prod.splits if_splits)
     (metis prepare_input_files_fs prepare_batches_fs)+

lemma snd_case_result [simp]:
  "snd (case p of (Inl e, w) \<Rightarrow> (Inl e, w) | (Inr s, w) \<Rightarrow> (Inr (f s), w)) = snd p"
  by (auto split: prod.splits sum.splits)

lemma two_layer_submit_fs:
  "fs (snd (two_layer_submit ev d outp ol tmpl pp cs1 cs2 gc1 gc2 ex fo ogr bs w)) d
     = fs w d"
proof (induction bs arbitrary: w ogr)
  case Nil
  then show ?case by simp
next
  case (Cons x bs)
  obtain batch_id b where x: "x = (batch_id, b)" by (cases x)
  show ?case
    unfolding x
    by (simp add: Let_def Cons.IH job_output_path_def split: sum.splits)
qed

lemma two_layer_submit_paths:
  "two_layer_submit ev d outp ol tmpl pp cs1 cs2 gc1 gc2 ex fo ogr bs w = (Inr submitted, w')
     \<Longrightarrow> \<forall>x \<in> set submitted. \<exists>n. tmp_partial_output_path (fst (snd x)) = path_join d n"
proof (induction bs arbitrary: w submitted w')
  case Nil
  then show ?case by simp
next
  case (Cons x bs)
  obtain batch_id b where x: "x = (batch_id, b)" by (cases x)
  from Cons.prems obtain stmt j rest_sub w1 n where
    rest: "two_layer_submit ev d outp ol tmpl pp cs1 cs2 gc1 gc2 ex fo ogr bs w1
             = (Inr rest_sub, w')"
    and sub: "submitted = (batch_id, \<lparr> out_layer = ol,
                 tmp_partial_output_path = path_join d n, sql_stmt = stmt \<rparr>, j) # rest_sub"
    unfolding x
    by (auto simp: Let_def split: sum.splits prod.splits if_splits)
  from Cons.IH[OF rest] sub show ?case by auto
qed

lemma two_layer_drain_fs:
  assumes "\<forall>x \<in> set xs. tmp_partial_output_path (fst (snd x)) \<noteq> q" and "tmp \<noteq> q"
  shows "fs (snd (two_layer_drain ev tmp verbose n xs k w)) q = fs w q"
  using assms
proof (induction xs arbitrary: k w verbose)
  case Nil
  then show ?case by simp
next
  case (Cons x xs)
  obtain batch_id b j where x: "x = (batch_id, b, j)" by (cases x)
  have IH: "fs (snd (two_layer_drain ev tmp v n xs k' w'')) q = fs w'' q" for k' w'' v
    using Cons by simp
  show ?case
    unfolding x using Cons.prems
    by (auto simp: IH Let_def x split: worker_result.splits)
qed

lemma two_layer_submit_fs_E:
  assumes "two_layer_submit ev d outp ol tmpl pp cs1 cs2 gc1 gc2 ex fo ogr bs w = (r, w')"
  shows "fs w' d = fs w d"
  using two_layer_submit_fs[of ev d outp ol tmpl pp cs1 cs2 gc1 gc2 ex fo ogr bs w] assms
  by simp

lemma two_layer_drain_error_fs:
  assumes sub: "two_layer_submit ev d outp ol tmpl pp cs1 cs2 gc1 gc2 ex fo ogr bs w0
                  = (Inr submitted, w)"
    and drain: "two_layer_drain ev (path_join d nm) verbose n (sort_key f submitted) k
                  (report_progress k' n' w) = (r, w')"
  shows "fs w' d = fs w0 d"
proof -
  from two_layer_submit_paths[OF sub]
  have "\<forall>x \<in> set (sort_key f submitted). tmp_partial_output_path (fst (snd x)) \<noteq> d"
    by auto
  from two_layer_drain_fs[OF this, of "path_join d nm" ev verbose n k "report_progress k' n' w"]
    drain
  have "fs w' d = fs w d" by simp
  with two_layer_submit_fs_E[OF sub] show ?thesis by simp
qed

lemma two_layer_try_error_fs:
  assumes "two_layer_try ev in1 in2 outp tmpl opn l1 c1 pf1 l2 c2 pf2 ol ex fo idx ogr nbp bsz
             verbose d (path_join d nm) w = (Inl e, w')"
  shows "fs w' d = fs w d"
  using assms
  unfolding two_layer_try_def Let_def
  apply (auto split: prod.splits sum.splits option.splits if_splits
      dest!: planner_fs)
  apply ((frule (1) two_layer_drain_error_fs, simp)
         | (drule two_layer_submit_fs_E, simp))+
  done

text \<open>
  The error of the loop over the futures is the one made at line 1500 from the entry
  \<^verbatim>\<open>batches[batch_id]\<close> of a batch whose worker raised: its layer, its partial file
  and its statement.
\<close>

lemma two_layer_drain_error:
  "two_layer_drain ev tmp verbose n xs k w = (Inl e, w')
     \<Longrightarrow> \<exists>x \<in> set xs. \<exists>ex. run_job ev (snd (snd x)) = WorkerRaises ex
           \<and> e = ErrorExecuting (out_layer (fst (snd x)))
                   (tmp_partial_output_path (fst (snd x))) (sql_stmt (fst (snd x)))"
proof (induction xs arbitrary: k w verbose)
  case Nil
  then show ?case by simp
next
  case (Cons x xs)
  obtain batch_id b j where x: "x = (batch_id, b, j)" by (cases x)
  from Cons.prems show ?case
    unfolding x
    by (auto simp: Let_def split: worker_result.splits if_splits dest!: Cons.IH)
qed

text \<open>
  Claim C2, where the code leaves it. The claim has the working directory removed on
  every exit path. A two-layer operation that has passed its checks has made the
  directory (line 1337); when it then raises, whatever raised (a worker, the
  planner, the column projector, the driver), there is no container at the output
  path, as the claim says, but the directory is still there: the handler of lines
  1520 to 1523 removes the two output files and raises again, and
  \<^verbatim>\<open>shutil.rmtree(tempdir)\<close>, line 1526, stands after the \<^verbatim>\<open>try\<close> statement. (The output
  path is taken not to be the working directory itself.)
\<close>

theorem two_layer_error_keeps_tempdir:
  assumes e1: "path_exists w input1_path" and e2: "path_exists w input2_path"
    and ogr: "\<not> (use_ogr \<and> input1_path \<noteq> input2_path)"
    and noop: "\<not> (path_exists w output_path \<and> \<not> force)"
    and deps: "check_runtimedependencies ev = None"
    and r1: "(case input1_layer of None \<Rightarrow> get_only_layer ev input1_path | Some l \<Rightarrow> Inr l)
               = Inr layer1_name"
    and r2: "(case input2_layer of None \<Rightarrow> get_only_layer ev input2_path | Some l \<Rightarrow> Inr l)
               = Inr layer2_name"
    and ne: "output_path \<noteq> create_tempdir ev (''geofileops/'' @ operation_name)"
    and run: "two_layer_vector_operation ev input1_path input2_path output_path
                sql_template operation_name input1_layer input1_columns
                input1_columns_prefix input2_layer input2_columns input2_columns_prefix
                output_layer explodecollections force_output_geometrytype
                output_with_spatial_index use_ogr nb_parallel batchsize verbose force w
              = (Inl e, w')"
  shows "fs w' output_path = None
       \<and> fs w' (create_tempdir ev (''geofileops/'' @ operation_name)) = Some Dir"
proof -
  have pp: "path_parent (path_join d n) = d" for d n
    by (simp add: path_parent_def path_join_def)
  have noop': "(path_exists w output_path \<and> \<not> force) = False"
    using noop by simp
  have ogr': "(use_ogr \<and> input1_path \<noteq> input2_path) = False"
    using ogr by simp
  have out: "fs (if path_exists w output_path then gfo_remove output_path w else w)
               output_path = None"
    by (simp add: path_exists_def)
  from run show ?thesis
    unfolding two_layer_vector_operation_def
    using e1 e2 deps r1 r2 ne out
    by (auto simp: Let_def io_create_tempdir_def pp noop' ogr'
        split: sum.splits prod.splits try_exit.splits
        dest!: two_layer_try_error_fs)
qed

text \<open>
  The failing input: \<^verbatim>\<open>in.gpkg\<close> and \<^verbatim>\<open>erase.gpkg\<close> exist, the layer has the rowids
  \<open>1, ..., 40\<close>, \<^verbatim>\<open>nb_parallel=2\<close> makes four batches and the worker of batch 2
  raises. One error is raised, with the layer, the partial file and the statement of
  batch 2; there is no \<^verbatim>\<open>out.gpkg\<close>; the directory \<^verbatim>\<open>tmp/geofileops/erase\<close> is there.
\<close>

theorem two_layer_error_keeps_tempdir_witness:
  "path_exists two_inputs_world [''in.gpkg'']
   \<and> path_exists two_inputs_world [''erase.gpkg'']
   \<and> \<not> path_exists two_inputs_world [''out.gpkg'']
   \<and> fst (two_layer_vector_operation (failing_env ''erase'') [''in.gpkg'']
            [''erase.gpkg''] [''out.gpkg''] ''SELECT * FROM t WHERE 1=1 '' ''erase'' None
            None ''l1_'' None None ''l2_'' None False None True False 2 (- 1) False False
            two_inputs_world)
       = Inl (ErrorExecuting ''out'' [''tmp'', ''geofileops/erase'', ''out_2.gpkg'']
                ''SELECT * FROM t WHERE 1=1 AND (layer1.rowid >= 20 AND layer1.rowid <= 29) '')
   \<and> fs (snd (two_layer_vector_operation (failing_env ''erase'') [''in.gpkg'']
            [''erase.gpkg''] [''out.gpkg''] ''SELECT * FROM t WHERE 1=1 '' ''erase'' None
            None ''l1_'' None None ''l2_'' None False None True False 2 (- 1) False False
            two_inputs_world)) [''out.gpkg''] = None
   \<and> fs (snd (two_layer_vector_operation (failing_env ''erase'') [''in.gpkg'']
            [''erase.gpkg''] [''out.gpkg''] ''SELECT * FROM t WHERE 1=1 '' ''erase'' None
            None ''l1_'' None None ''l2_'' None False None True False 2 (- 1) False False
            two_inputs_world)) [''tmp'', ''geofileops/erase''] = Some Dir"
proof -
  let ?ev = "failing_env ''erase''"
  let ?run = "two_layer_vector_operation ?ev [''in.gpkg''] [''erase.gpkg''] [''out.gpkg'']
                ''SELECT * FROM t WHERE 1=1 '' ''erase'' None None ''l1_'' None None ''l2_''
                None False None True False 2 (- 1) False False two_inputs_world"
  let ?e = "ErrorExecuting ''out'' [''tmp'', ''geofileops/erase'', ''out_2.gpkg'']
              ''SELECT * FROM t WHERE 1=1 AND (layer1.rowid >= 20 AND layer1.rowid <= 29) ''"
  have f: "fst ?run = Inl ?e" by code_simp
  then have run: "?run = (Inl ?e, snd ?run)" by (metis prod.collapse)
  have e1: "path_exists two_inputs_world [''in.gpkg'']"
    by (simp add: path_exists_def two_inputs_world_def)
  have e2: "path_exists two_inputs_world [''erase.gpkg'']"
    by (simp add: path_exists_def two_inputs_world_def)
  have e3: "\<not> path_exists two_inputs_world [''out.gpkg'']"
    by (simp add: path_exists_def two_inputs_world_def)
  have ogr: "\<not> (False \<and> [''in.gpkg''] \<noteq> [''erase.gpkg''])"
    by simp
  have noop: "\<not> (path_exists two_inputs_world [''out.gpkg''] \<and> \<not> False)"
    using e3 by simp
  have deps: "check_runtimedependencies ?ev = None"
    by (simp add: failing_env_def example_env_def)
  have r1: "(case None of None \<Rightarrow> get_only_layer ?ev [''in.gpkg''] | Some l \<Rightarrow> Inr l)
              = Inr ''parcels''"
    by (simp add: get_only_layer_def failing_env_def example_env_def)
  have r2: "(case None of None \<Rightarrow> get_only_layer ?ev [''erase.gpkg''] | Some l \<Rightarrow> Inr l)
              = Inr ''parcels''"
    by (simp add: get_only_layer_def failing_env_def example_env_def)
  have td: "create_tempdir ?ev (''geofileops/'' @ ''erase'') = [''tmp'', ''geofileops/erase'']"
    by (simp add: failing_env_def example_env_def)
  have ne: "[''out.gpkg''] \<noteq> create_tempdir ?ev (''geofileops/'' @ ''erase'')"
    unfolding td by simp
  note t = two_layer_error_keeps_tempdir[where ev = "?ev" and w = two_inputs_world
      and input1_path = "[''in.gpkg'']" and input2_path = "[''erase.gpkg'']"
      and output_path = "[''out.gpkg'']" and use_ogr = False and force = False
      and input1_layer = None and input2_layer = None
      and layer1_name = "''parcels''" and layer2_name = "''parcels''"
      and operation_name = "''erase''", OF e1 e2 ogr noop deps r1 r2 ne run]
  from t[unfolded td] f e1 e2 e3 show ?thesis by blast
qed

text \<open>
  The exit without an error and without a result: when the first layer is empty the
  \<^verbatim>\<open>return\<close> of line 1365 leaves the function from inside the \<^verbatim>\<open>try\<close>, line 1526 is
  not reached either, and the directory stays.
\<close>

lemma two_layer_empty_keeps_tempdir:
  assumes li: "get_layerinfo ev input1_path layer1_name = Inr input1_layerinfo"
    and empty: "featurecount input1_layerinfo = 0"
    and e1: "path_exists w input1_path" and e2: "path_exists w input2_path"
    and ogr: "\<not> (use_ogr \<and> input1_path \<noteq> input2_path)"
    and noop: "\<not> (path_exists w output_path \<and> \<not> force)"
    and deps: "check_runtimedependencies ev = None"
    and r1: "(case input1_layer of None \<Rightarrow> get_only_layer ev input1_path | Some l \<Rightarrow> Inr l)
               = Inr layer1_name"
    and r2: "(case input2_layer of None \<Rightarrow> get_only_layer ev input2_path | Some l \<Rightarrow> Inr l)
               = Inr layer2_name"
    and li2: "get_layerinfo ev input2_path layer2_name = Inr input2_layerinfo"
  shows "fst (two_layer_vector_operation ev input1_path input2_path output_path
                sql_template operation_name input1_layer input1_columns
                input1_columns_prefix input2_layer input2_columns input2_columns_prefix
                output_layer explodecollections force_output_geometrytype
                output_with_spatial_index use_ogr nb_parallel batchsize verbose force w)
           = Inr ()
       \<and> fs (snd (two_layer_vector_operation ev input1_path input2_path output_path
                sql_template operation_name input1_layer input1_columns
                input1_columns_prefix input2_layer input2_columns input2_columns_prefix
                output_layer explodecollections force_output_geometrytype
                output_with_spatial_index use_ogr nb_parallel batchsize verbose force w))
            (create_tempdir ev (''geofileops/'' @ operation_name)) = Some Dir"
  unfolding two_layer_empty_run[OF li empty e1 e2 ogr noop deps r1 r2 li2]
  by simp

text \<open>
  The sibling \<^verbatim>\<open>_single_layer_vector_operation\<close> removes the directory in a
  \<^verbatim>\<open>finally\<close> clause (lines 518 to 521): once it has made the directory, the
  directory is gone when it returns or raises.
\<close>

lemma single_layer_removes_tempdir:
  assumes e: "path_exists w input_path"
    and noop: "\<not> (path_exists w output_path \<and> \<not> force)"
    and r: "(case input_layer of None \<Rightarrow> get_only_layer ev input_path | Some l \<Rightarrow> Inr l)
              = Inr layer_name"
    and li: "get_layerinfo ev input_path layer_name = Inr input_layerinfo"
  shows "fs (snd (single_layer_vector_operation ev input_path output_path sql_template
                    operation_name input_layer output_layer columns_param
                    explodecollections force_output_geometrytype filter_null_geoms
                    nb_parallel batchsize force w))
           (create_tempdir ev
              (''geofileops/''
               @ map (\<lambda>c. if c = CHR '' '' then CHR ''_'' else c) operation_name))
         = None"
proof -
  have noop': "(path_exists w output_path \<and> \<not> force) = False"
    using noop by simp
  show ?thesis
    unfolding single_layer_vector_operation_def
    using e r li
    by (simp add: Let_def io_create_tempdir_def noop' case_prod_beta del: append.simps)
qed

end
